theory Spec2Isabelle
  imports Complex_Main "HOL-Library.Word"
begin

section \<open>Errors and tensors\<close>

text \<open>
  Exceptions of the Python program are values: a computation that can raise returns
  \<open>error + 'a\<close>, with \<open>Inl\<close> for the exception.
\<close>

datatype error =
    TypeError string
  | NameError string
  | RuntimeError string
  | ValueError string
  | IndexError string
  | AttributeError string
  | RecursionError string

definition bindE :: "error + 'a \<Rightarrow> ('a \<Rightarrow> error + 'b) \<Rightarrow> error + 'b" where
  "bindE m f = (case m of Inl e \<Rightarrow> Inl e | Inr x \<Rightarrow> f x)"

text \<open>
  A tensor is its shape together with its entries in row-major (contiguous) order, the
  layout of a freshly created torch tensor.
\<close>

record 'a tensor =
  shape :: "nat list"
  data :: "'a list"

definition ravel :: "nat list \<Rightarrow> nat list \<Rightarrow> nat" where
  \<comment> \<open>row-major offset of a multi-index\<close>
  "ravel shp idx = foldl (\<lambda>acc (n, i). acc * n + i) 0 (zip shp idx)"

definition tget :: "'a tensor \<Rightarrow> nat list \<Rightarrow> 'a" where
  "tget t idx = data t ! ravel (shape t) idx"

section \<open>Library operations used by tools.py\<close>

type_synonym int32 = "32 word"

definition torch_arange_int32 :: "int \<Rightarrow> error + int32 tensor" where
  \<comment> \<open>\<open>torch.arange(n, dtype=torch.int32)\<close>: the values 0 .. n-1; a negative bound raises\<close>
  "torch_arange_int32 n =
     (if n < 0 then Inl (RuntimeError ''upper bound and larger bound inconsistent with step sign'')
      else Inr \<lparr>shape = [nat n], data = map word_of_nat [0..<nat n]\<rparr>)"

definition torch_meshgrid_ij :: "'a tensor \<Rightarrow> 'a tensor \<Rightarrow> 'a tensor \<times> 'a tensor" where
  \<comment> \<open>\<open>torch.meshgrid(a, b, indexing='ij')\<close> on 1-D tensors: \<open>hh[i, j] = a[i]\<close>, \<open>ww[i, j] = b[j]\<close>\<close>
  "torch_meshgrid_ij a b =
     (let n = length (data a); m = length (data b)
      in (\<lparr>shape = [n, m], data = map (\<lambda>k. data a ! (k div m)) [0..<n * m]\<rparr>,
          \<lparr>shape = [n, m], data = map (\<lambda>k. data b ! (k mod m)) [0..<n * m]\<rparr>))"

definition tensor_add :: "int32 tensor \<Rightarrow> int32 tensor \<Rightarrow> int32 tensor" where
  \<comment> \<open>\<open>x + y\<close> on int32 tensors of one shape: entrywise, wrapping modulo 2^32\<close>
  "tensor_add x y = \<lparr>shape = shape x, data = map2 (+) (data x) (data y)\<rparr>"

definition fmod_trunc :: "int \<Rightarrow> int \<Rightarrow> int" where
  \<comment> \<open>the remainder of truncated division: it has the sign of the dividend\<close>
  "fmod_trunc a b = sgn a * (\<bar>a\<bar> mod \<bar>b\<bar>)"

definition torch_fmod :: "int32 tensor \<Rightarrow> int \<Rightarrow> int32 tensor" where
  \<comment> \<open>\<open>torch.fmod(x, d)\<close> on an int32 tensor\<close>
  "torch_fmod x d = \<lparr>shape = shape x, data = map (\<lambda>v. word_of_int (fmod_trunc (sint v) d)) (data x)\<rparr>"

definition to_float32 :: "int32 tensor \<Rightarrow> real tensor" where
  \<comment> \<open>\<open>x.to(torch.float32)\<close>; float32 values are modelled by the reals they denote\<close>
  "to_float32 x = \<lparr>shape = shape x, data = map (\<lambda>v. real_of_int (sint v)) (data x)\<rparr>"

definition torch_view :: "'a tensor \<Rightarrow> nat list \<Rightarrow> error + 'a tensor" where
  \<comment> \<open>\<open>x.view(*shp)\<close>: the same entries under a new shape with as many elements\<close>
  "torch_view x shp =
     (if prod_list shp = length (data x) then Inr (x\<lparr>shape := shp\<rparr>)
      else Inl (RuntimeError ''shape is invalid for input size''))"

definition rsub :: "real \<Rightarrow> real tensor \<Rightarrow> real tensor" where
  \<comment> \<open>\<open>s - x\<close> for a scalar \<open>s\<close>: entrywise\<close>
  "rsub s x = \<lparr>shape = shape x, data = map (\<lambda>v. s - v) (data x)\<rparr>"

definition torch_ones :: "int \<Rightarrow> error + real tensor" where
  "torch_ones n =
     (if n < 0 then Inl (RuntimeError ''negative dimension'')
      else Inr \<lparr>shape = [nat n], data = replicate (nat n) 1\<rparr>)"

definition torch_zeros :: "int \<Rightarrow> error + real tensor" where
  "torch_zeros n =
     (if n < 0 then Inl (RuntimeError ''negative dimension'')
      else Inr \<lparr>shape = [nat n], data = replicate (nat n) 0\<rparr>)"

definition torch_cat0 :: "'a tensor \<Rightarrow> 'a tensor \<Rightarrow> 'a tensor" where
  \<comment> \<open>\<open>torch.cat([a, b])\<close> on 1-D tensors\<close>
  "torch_cat0 a b = \<lparr>shape = [length (data a) + length (data b)], data = data a @ data b\<rparr>"

section \<open>tools.py: masks for the coupling layers\<close>

definition create_checkerboard_mask :: "int \<Rightarrow> int \<Rightarrow> bool \<Rightarrow> error + real tensor" where
  "create_checkerboard_mask h w invert =
     bindE (torch_arange_int32 h) (\<lambda>h_range.
     bindE (torch_arange_int32 w) (\<lambda>w_range.
       let (hh, ww) = torch_meshgrid_ij h_range w_range;
           mask = torch_fmod (tensor_add hh ww) 2
       in bindE (torch_view (to_float32 mask) [1, 1, nat h, nat w]) (\<lambda>mask.
          Inr (if invert then rsub 1 mask else mask))))"

definition create_channel_mask :: "int \<Rightarrow> bool \<Rightarrow> error + real tensor" where
  "create_channel_mask c_in invert =
     bindE (torch_ones (c_in div 2)) (\<lambda>ones.
     bindE (torch_zeros (c_in - c_in div 2)) (\<lambda>zeros.
     bindE (torch_view (torch_cat0 ones zeros) [1, nat c_in, 1, 1]) (\<lambda>mask.
       Inr (if invert then rsub 1 mask else mask))))"

section \<open>Library operations used by nn_layers.py\<close>

text \<open>
  A float32 value is a finite value (given by the real number it denotes), an infinity or
  NaN. An arithmetic operation on finite values returns the exact result rounded to
  float32, which can overflow to an infinity: the rounding \<open>rnd\<close> is a parameter of the
  model. On the non-finite values the operations follow IEEE 754: NaN is absorbing,
  \<open>0 * inf\<close>, \<open>inf - inf\<close> and \<open>inf / inf\<close> are NaN. The sign of zero is not modelled.
\<close>

datatype f32 = Fin real | PInf | NInf | NaN

type_synonym rounding = "real \<Rightarrow> f32"

fun is_fin :: "f32 \<Rightarrow> bool" where
  "is_fin (Fin a) = True"
| "is_fin v = False"

fun is_neg :: "f32 \<Rightarrow> bool" where
  "is_neg (Fin a) = (a < 0)"
| "is_neg NInf = True"
| "is_neg v = False"

fun fneg :: "f32 \<Rightarrow> f32" where
  "fneg (Fin a) = Fin (- a)"
| "fneg PInf = NInf"
| "fneg NInf = PInf"
| "fneg NaN = NaN"

fun fadd :: "rounding \<Rightarrow> f32 \<Rightarrow> f32 \<Rightarrow> f32" where
  "fadd rnd (Fin a) (Fin b) = rnd (a + b)"
| "fadd rnd NaN y = NaN"
| "fadd rnd x NaN = NaN"
| "fadd rnd PInf NInf = NaN"
| "fadd rnd NInf PInf = NaN"
| "fadd rnd PInf y = PInf"
| "fadd rnd x PInf = PInf"
| "fadd rnd NInf y = NInf"
| "fadd rnd x NInf = NInf"

definition fsub :: "rounding \<Rightarrow> f32 \<Rightarrow> f32 \<Rightarrow> f32" where
  "fsub rnd x y = fadd rnd x (fneg y)"

fun fmul :: "rounding \<Rightarrow> f32 \<Rightarrow> f32 \<Rightarrow> f32" where
  "fmul rnd (Fin a) (Fin b) = rnd (a * b)"
| "fmul rnd NaN y = NaN"
| "fmul rnd x NaN = NaN"
| "fmul rnd x y =
     (if x = Fin 0 \<or> y = Fin 0 then NaN else if is_neg x = is_neg y then PInf else NInf)"

fun fdiv :: "rounding \<Rightarrow> f32 \<Rightarrow> f32 \<Rightarrow> f32" where
  "fdiv rnd (Fin a) (Fin b) =
     (if b = 0 then (if a = 0 then NaN else if 0 < a then PInf else NInf) else rnd (a / b))"
| "fdiv rnd NaN y = NaN"
| "fdiv rnd x NaN = NaN"
| "fdiv rnd (Fin a) y = Fin 0"
| "fdiv rnd x (Fin b) = (if is_neg x = (b < 0) then PInf else NInf)"
| "fdiv rnd x y = NaN"

fun fsqrt :: "rounding \<Rightarrow> f32 \<Rightarrow> f32" where
  "fsqrt rnd (Fin a) = (if a < 0 then NaN else rnd (sqrt a))"
| "fsqrt rnd PInf = PInf"
| "fsqrt rnd v = NaN"

fun fexp :: "rounding \<Rightarrow> f32 \<Rightarrow> f32" where
  "fexp rnd (Fin a) = rnd (exp a)"
| "fexp rnd PInf = PInf"
| "fexp rnd NInf = Fin 0"
| "fexp rnd NaN = NaN"

fun fpos :: "f32 \<Rightarrow> bool" where
  \<comment> \<open>the comparison \<open>v > 0\<close>: false for NaN\<close>
  "fpos (Fin a) = (0 < a)"
| "fpos PInf = True"
| "fpos v = False"

definition fsum :: "rounding \<Rightarrow> f32 list \<Rightarrow> f32" where
  \<comment> \<open>a sum accumulated from zero, in the order of the list\<close>
  "fsum rnd xs = foldl (fadd rnd) (Fin 0) xs"

fun unravel :: "nat list \<Rightarrow> nat \<Rightarrow> nat list" where
  \<comment> \<open>the multi-index of a row-major offset\<close>
  "unravel [] k = []"
| "unravel (d # ds) k = (k div prod_list ds) mod d # unravel ds k"

definition tbuild :: "nat list \<Rightarrow> (nat list \<Rightarrow> 'a) \<Rightarrow> 'a tensor" where
  \<comment> \<open>the tensor of a shape whose entry at each multi-index is given by a function\<close>
  "tbuild shp f = \<lparr>shape = shp, data = map (\<lambda>k. f (unravel shp k)) [0..<prod_list shp]\<rparr>"

definition tmap :: "('a \<Rightarrow> 'b) \<Rightarrow> 'a tensor \<Rightarrow> 'b tensor" where
  "tmap f x = \<lparr>shape = shape x, data = map f (data x)\<rparr>"

definition tensor_binop :: "(f32 \<Rightarrow> f32 \<Rightarrow> f32) \<Rightarrow> f32 tensor \<Rightarrow> f32 tensor \<Rightarrow> error + f32 tensor" where
  \<comment> \<open>an entrywise binary operation; its operands have one shape wherever this program applies
      it, and operands of different shapes (which torch would try to broadcast) are an error here\<close>
  "tensor_binop f x y =
     (if shape x = shape y then Inr \<lparr>shape = shape x, data = map2 f (data x) (data y)\<rparr>
      else Inl (RuntimeError ''operands of different shapes''))"

definition elu :: "rounding \<Rightarrow> f32 \<Rightarrow> f32" where
  \<comment> \<open>\<open>F.elu\<close> with its default \<open>alpha = 1\<close>\<close>
  "elu rnd v = (if fpos v then v else fsub rnd (fexp rnd v) (Fin 1))"

definition sigmoid :: "rounding \<Rightarrow> f32 \<Rightarrow> f32" where
  "sigmoid rnd v = fdiv rnd (Fin 1) (fadd rnd (Fin 1) (fexp rnd (fneg v)))"

definition torch_cat1 :: "f32 tensor \<Rightarrow> f32 tensor \<Rightarrow> error + f32 tensor" where
  \<comment> \<open>\<open>torch.cat([a, b], dim=1)\<close>\<close>
  "torch_cat1 a b =
     (case (shape a, shape b) of
        (n # ca # ra, m # cb # rb) \<Rightarrow>
          if n = m \<and> ra = rb
          then Inr (tbuild (n # (ca + cb) # ra)
                 (\<lambda>idx. if idx ! 1 < ca then tget a idx else tget b (idx[1 := idx ! 1 - ca])))
          else Inl (RuntimeError ''Sizes of tensors must match except in dimension 1'')
      | _ \<Rightarrow> Inl (IndexError ''Dimension out of range''))"

definition torch_chunk2_dim1 :: "f32 tensor \<Rightarrow> error + f32 tensor list" where
  \<comment> \<open>\<open>x.chunk(2, dim=1)\<close>: chunks of \<open>ceil(c / 2)\<close> channels; a single channel gives one chunk\<close>
  "torch_chunk2_dim1 x =
     (case shape x of
        n # c # r \<Rightarrow>
          let k = (c + 1) div 2
          in if c = 1 then Inr [x]
             else Inr [tbuild (n # k # r) (\<lambda>idx. tget x idx),
                       tbuild (n # (c - k) # r) (\<lambda>idx. tget x (idx[1 := idx ! 1 + k]))]
      | _ \<Rightarrow> Inl (IndexError ''Dimension out of range''))"

definition unpack2 :: "'a list \<Rightarrow> error + ('a \<times> 'a)" where
  \<comment> \<open>the tuple assignment \<open>a, b = xs\<close>\<close>
  "unpack2 xs =
     (case xs of
        [a, b] \<Rightarrow> Inr (a, b)
      | [] \<Rightarrow> Inl (ValueError ''not enough values to unpack'')
      | [a] \<Rightarrow> Inl (ValueError ''not enough values to unpack'')
      | _ \<Rightarrow> Inl (ValueError ''too many values to unpack''))"

definition torch_permute :: "'a tensor \<Rightarrow> nat list \<Rightarrow> error + 'a tensor" where
  \<comment> \<open>\<open>x.permute(*perm)\<close>: dimension \<open>a\<close> of the result is dimension \<open>perm[a]\<close> of \<open>x\<close>\<close>
  "torch_permute x perm =
     (if sort perm = [0..<length (shape x)]
      then Inr (tbuild (map (\<lambda>a. shape x ! a) perm)
             (\<lambda>idx. tget x (map (\<lambda>d. idx ! length (takeWhile (\<lambda>a. a \<noteq> d) perm)) [0..<length perm])))
      else Inl (RuntimeError ''permute: dims do not match the tensor''))"

definition torch_flatten1 :: "'a tensor \<Rightarrow> error + 'a tensor" where
  \<comment> \<open>\<open>torch.flatten(x, start_dim=1)\<close>\<close>
  "torch_flatten1 x =
     (case shape x of
        n # d # r \<Rightarrow> Inr (x\<lparr>shape := [n, prod_list (d # r)]\<rparr>)
      | _ \<Rightarrow> Inl (IndexError ''Dimension out of range''))"

definition torch_reshape :: "'a tensor \<Rightarrow> nat list \<Rightarrow> error + 'a tensor" where
  \<comment> \<open>\<open>torch.reshape(x, shp)\<close>\<close>
  "torch_reshape x shp =
     (if prod_list shp = length (data x) then Inr (x\<lparr>shape := shp\<rparr>)
      else Inl (RuntimeError ''shape is invalid for input size''))"

text \<open>The trainable parameters of a layer.\<close>

record params =
  weight :: "f32 list"
  bias :: "f32 list"

definition padded_get :: "f32 tensor \<Rightarrow> nat \<Rightarrow> nat \<Rightarrow> nat \<Rightarrow> nat \<Rightarrow> nat \<Rightarrow> f32" where
  \<comment> \<open>the entry of a 4-D tensor zero-padded by \<open>p\<close> on each spatial side\<close>
  "padded_get x p b ci y xx =
     (if p \<le> y \<and> y < shape x ! 2 + p \<and> p \<le> xx \<and> xx < shape x ! 3 + p
      then tget x [b, ci, y - p, xx - p] else Fin 0)"

definition conv2d_forward :: "rounding \<Rightarrow> nat \<Rightarrow> nat \<Rightarrow> nat \<Rightarrow> nat \<Rightarrow> params \<Rightarrow> f32 tensor \<Rightarrow> error + f32 tensor" where
  \<comment> \<open>\<open>nn.Conv2d(cin, cout, kernel_size=k, padding=p)\<close> applied to a 4-D batch\<close>
  "conv2d_forward rnd cin cout k p ps x =
     (case shape x of
        [b, c, h, w] \<Rightarrow>
          if c \<noteq> cin then Inl (RuntimeError ''input channels do not match in_channels'')
          else if h + 2 * p < k \<or> w + 2 * p < k
          then Inl (RuntimeError ''Kernel size can not be greater than actual input size'')
          else Inr (tbuild [b, cout, h + 2 * p - k + 1, w + 2 * p - k + 1]
                 (\<lambda>idx. fadd rnd (bias ps ! (idx ! 1))
                    (fsum rnd (map (\<lambda>(ci, di, dj).
                          fmul rnd (weight ps ! ravel [cout, cin, k, k] [idx ! 1, ci, di, dj])
                            (padded_get x p (idx ! 0) ci (idx ! 2 + di) (idx ! 3 + dj)))
                        (List.product [0..<cin] (List.product [0..<k] [0..<k]))))))
      | _ \<Rightarrow> Inl (RuntimeError ''Expected 4D input to conv2d''))"

definition linear_forward :: "rounding \<Rightarrow> nat \<Rightarrow> nat \<Rightarrow> params \<Rightarrow> f32 tensor \<Rightarrow> error + f32 tensor" where
  \<comment> \<open>\<open>nn.Linear(fin, fout)\<close>, applied along the last dimension\<close>
  "linear_forward rnd fin fout ps x =
     (if shape x = [] \<or> last (shape x) \<noteq> fin
      then Inl (RuntimeError ''mat1 and mat2 shapes cannot be multiplied'')
      else Inr (tbuild (butlast (shape x) @ [fout])
             (\<lambda>idx. fadd rnd (bias ps ! last idx)
                (fsum rnd (map (\<lambda>k. fmul rnd (weight ps ! (last idx * fin + k)) (tget x (butlast idx @ [k])))
                    [0..<fin])))))"

definition layer_norm_forward :: "rounding \<Rightarrow> nat \<Rightarrow> params \<Rightarrow> f32 tensor \<Rightarrow> error + f32 tensor" where
  \<comment> \<open>\<open>nn.LayerNorm(n)\<close>: normalisation over the last dimension, \<open>eps = 1e-5\<close>\<close>
  "layer_norm_forward rnd n ps x =
     (if shape x = [] \<or> last (shape x) \<noteq> n
      then Inl (RuntimeError ''input does not end with normalized_shape'')
      else Inr (tbuild (shape x)
             (\<lambda>idx. let row = map (\<lambda>k. tget x (butlast idx @ [k])) [0..<n];
                        mean = fdiv rnd (fsum rnd row) (Fin (real n));
                        var = fdiv rnd (fsum rnd (map (\<lambda>v. fmul rnd (fsub rnd v mean) (fsub rnd v mean)) row))
                                (Fin (real n))
                    in fadd rnd
                         (fmul rnd (fdiv rnd (fsub rnd (tget x idx) mean)
                                      (fsqrt rnd (fadd rnd var (Fin (1 / 100000)))))
                            (weight ps ! last idx))
                         (bias ps ! last idx))))"

section \<open>nn_layers.py: the gated networks\<close>

text \<open>The modules of the program; \<open>Sequential\<close> is \<open>nn.Sequential\<close>.\<close>

datatype module =
    Conv2d nat nat nat nat params
  | Linear nat nat params
  | LayerNorm nat params
  | Sequential "module list"
  | ConcatELU
  | LayerNormChannels module
  | GatedConv module
  | GatedLinear module

definition ConcatELU_forward :: "rounding \<Rightarrow> f32 tensor \<Rightarrow> error + f32 tensor" where
  "ConcatELU_forward rnd x = torch_cat1 (tmap (elu rnd) x) (tmap (\<lambda>v. elu rnd (fneg v)) x)"

definition gate_update :: "rounding \<Rightarrow> f32 tensor \<Rightarrow> f32 tensor \<Rightarrow> error + f32 tensor" where
  \<comment> \<open>\<open>val, gate = out.chunk(2, dim=1); return x + val * torch.sigmoid(gate)\<close>\<close>
  "gate_update rnd x out =
     bindE (torch_chunk2_dim1 out) (\<lambda>chunks.
     bindE (unpack2 chunks) (\<lambda>(val, gate).
     bindE (tensor_binop (fmul rnd) val (tmap (sigmoid rnd) gate)) (\<lambda>upd.
       tensor_binop (fadd rnd) x upd)))"

fun forward :: "rounding \<Rightarrow> module \<Rightarrow> f32 tensor \<Rightarrow> error + f32 tensor"
  and forward_all :: "rounding \<Rightarrow> module list \<Rightarrow> f32 tensor \<Rightarrow> error + f32 tensor" where
  "forward rnd (Conv2d cin cout k p ps) x = conv2d_forward rnd cin cout k p ps x"
| "forward rnd (Linear fin fout ps) x = linear_forward rnd fin fout ps x"
| "forward rnd (LayerNorm n ps) x = layer_norm_forward rnd n ps x"
| "forward rnd (Sequential ms) x = forward_all rnd ms x"
| "forward rnd ConcatELU x = ConcatELU_forward rnd x"
| "forward rnd (LayerNormChannels layer_norm) x =
     (case torch_permute x [0, 2, 3, 1] of Inl e \<Rightarrow> Inl e | Inr x1 \<Rightarrow>
      case forward rnd layer_norm x1 of Inl e \<Rightarrow> Inl e | Inr x2 \<Rightarrow>
      torch_permute x2 [0, 3, 1, 2])"
| "forward rnd (GatedConv net) x =
     (case forward rnd net x of Inl e \<Rightarrow> Inl e | Inr out \<Rightarrow> gate_update rnd x out)"
| "forward rnd (GatedLinear net) x =
     (case forward rnd net x of Inl e \<Rightarrow> Inl e | Inr out \<Rightarrow> gate_update rnd x out)"
| "forward_all rnd [] x = Inr x"
| "forward_all rnd (m # ms) x =
     (case forward rnd m x of Inl e \<Rightarrow> Inl e | Inr y \<Rightarrow> forward_all rnd ms y)"

text \<open>
  Constructors draw the initial values of the parameters, which are finite, from the random
  generator of the library. The generator is a stream of values that is threaded through
  the constructors; a constructor can raise.
\<close>

type_synonym rng = "nat \<Rightarrow> real"
type_synonym 'a ctor = "rng \<Rightarrow> error + ('a \<times> rng)"

definition draw :: "nat \<Rightarrow> rng \<Rightarrow> f32 list \<times> rng" where
  "draw n g = (map (\<lambda>i. Fin (g i)) [0..<n], \<lambda>i. g (i + n))"

definition returnC :: "'a \<Rightarrow> 'a ctor" where
  "returnC x g = Inr (x, g)"

definition raiseC :: "error \<Rightarrow> 'a ctor" where
  "raiseC e g = Inl e"

definition bindC :: "'a ctor \<Rightarrow> ('a \<Rightarrow> 'b ctor) \<Rightarrow> 'b ctor" where
  "bindC m f g = (case m g of Inl e \<Rightarrow> Inl e | Inr (x, g') \<Rightarrow> f x g')"

definition liftC :: "error + 'a \<Rightarrow> 'a ctor" where
  "liftC r g = (case r of Inl e \<Rightarrow> Inl e | Inr x \<Rightarrow> Inr (x, g))"

fun mapC :: "('a \<Rightarrow> 'b ctor) \<Rightarrow> 'a list \<Rightarrow> 'b list ctor" where
  \<comment> \<open>a list comprehension, or a loop that appends one result per iteration\<close>
  "mapC f [] = returnC []"
| "mapC f (x # xs) = bindC (f x) (\<lambda>y. bindC (mapC f xs) (\<lambda>ys. returnC (y # ys)))"

definition py_range :: "int \<Rightarrow> nat list" where
  \<comment> \<open>Python's \<open>range(n)\<close>\<close>
  "py_range n = [0..<nat n]"

definition Conv2d_init :: "int \<Rightarrow> int \<Rightarrow> nat \<Rightarrow> nat \<Rightarrow> module ctor" where
  \<comment> \<open>\<open>nn.Conv2d(cin, cout, kernel_size=k, padding=p)\<close>; a negative channel count raises\<close>
  "Conv2d_init cin cout k p g =
     (if cin < 0 \<or> cout < 0 then Inl (RuntimeError ''negative dimension'')
      else let (w, g1) = draw (nat cout * nat cin * k * k) g;
               (b, g2) = draw (nat cout) g1
           in Inr (Conv2d (nat cin) (nat cout) k p \<lparr>weight = w, bias = b\<rparr>, g2))"

definition Linear_init :: "int \<Rightarrow> int \<Rightarrow> module ctor" where
  \<comment> \<open>\<open>nn.Linear(in_features=fin, out_features=fout)\<close>\<close>
  "Linear_init fin fout g =
     (if fin < 0 \<or> fout < 0 then Inl (RuntimeError ''negative dimension'')
      else let (w, g1) = draw (nat fout * nat fin) g;
               (b, g2) = draw (nat fout) g1
           in Inr (Linear (nat fin) (nat fout) \<lparr>weight = w, bias = b\<rparr>, g2))"

definition LayerNorm_init :: "int \<Rightarrow> module ctor" where
  \<comment> \<open>\<open>nn.LayerNorm(n)\<close>: weight one, bias zero\<close>
  "LayerNorm_init n g =
     (if n < 0 then Inl (RuntimeError ''negative dimension'')
      else Inr (LayerNorm (nat n) \<lparr>weight = replicate (nat n) (Fin 1), bias = replicate (nat n) (Fin 0)\<rparr>, g))"

definition LayerNormChannels_init :: "int \<Rightarrow> module ctor" where
  "LayerNormChannels_init c_in =
     bindC (LayerNorm_init c_in) (\<lambda>layer_norm. returnC (LayerNormChannels layer_norm))"

definition GatedConv_init :: "int \<Rightarrow> int \<Rightarrow> module ctor" where
  "GatedConv_init c_in c_hidden =
     bindC (Conv2d_init c_in c_hidden 3 1) (\<lambda>conv_a.
     bindC (Conv2d_init (2 * c_hidden) (2 * c_in) 1 0) (\<lambda>conv_b.
       returnC (GatedConv (Sequential [conv_a, ConcatELU, conv_b]))))"

definition GatedLinear_init :: "int \<Rightarrow> module ctor" where
  "GatedLinear_init in_features =
     bindC (Linear_init in_features in_features) (\<lambda>lin_a.
     bindC (Linear_init (2 * in_features) (2 * in_features)) (\<lambda>lin_b.
       returnC (GatedLinear (Sequential [lin_a, ConcatELU, lin_b]))))"

definition zero_weight :: "module \<Rightarrow> error + module" where
  \<comment> \<open>\<open>m.weight.data.zero_()\<close>\<close>
  "zero_weight m =
     (case m of
        Conv2d cin cout k p ps \<Rightarrow> Inr (Conv2d cin cout k p (ps\<lparr>weight := map (\<lambda>_. Fin 0) (weight ps)\<rparr>))
      | Linear fin fout ps \<Rightarrow> Inr (Linear fin fout (ps\<lparr>weight := map (\<lambda>_. Fin 0) (weight ps)\<rparr>))
      | LayerNorm n ps \<Rightarrow> Inr (LayerNorm n (ps\<lparr>weight := map (\<lambda>_. Fin 0) (weight ps)\<rparr>))
      | _ \<Rightarrow> Inl (AttributeError ''weight''))"

definition zero_bias :: "module \<Rightarrow> error + module" where
  \<comment> \<open>\<open>m.bias.data.zero_()\<close>\<close>
  "zero_bias m =
     (case m of
        Conv2d cin cout k p ps \<Rightarrow> Inr (Conv2d cin cout k p (ps\<lparr>bias := map (\<lambda>_. Fin 0) (bias ps)\<rparr>))
      | Linear fin fout ps \<Rightarrow> Inr (Linear fin fout (ps\<lparr>bias := map (\<lambda>_. Fin 0) (bias ps)\<rparr>))
      | LayerNorm n ps \<Rightarrow> Inr (LayerNorm n (ps\<lparr>bias := map (\<lambda>_. Fin 0) (bias ps)\<rparr>))
      | _ \<Rightarrow> Inl (AttributeError ''bias''))"

definition update_last :: "(module \<Rightarrow> error + module) \<Rightarrow> module \<Rightarrow> error + module" where
  \<comment> \<open>an in-place update of \<open>seq[-1]\<close>\<close>
  "update_last f seq =
     (case seq of
        Sequential ms \<Rightarrow>
          if ms = [] then Inl (IndexError ''index -1 is out of range'')
          else bindE (f (last ms)) (\<lambda>m. Inr (Sequential (butlast ms @ [m])))
      | _ \<Rightarrow> Inl (TypeError ''object is not subscriptable''))"

datatype network = GatedConvNet (nn: module) | GatedLinearNet (nn: module)

definition GatedConvNet_init :: "int \<Rightarrow> int \<Rightarrow> int \<Rightarrow> int \<Rightarrow> network ctor" where
  "GatedConvNet_init c_in c_hidden c_out num_layers =
     (let c_out = (if c_out > 0 then c_out else 2 * c_in)
      in bindC (Conv2d_init c_in c_hidden 3 1) (\<lambda>first.
         bindC (mapC (\<lambda>layer_index.
                  bindC (GatedConv_init c_hidden c_hidden) (\<lambda>gated.
                  bindC (LayerNormChannels_init c_hidden) (\<lambda>norm.
                    returnC [gated, norm])))
                (py_range num_layers)) (\<lambda>blocks.
         bindC (Conv2d_init (2 * c_hidden) c_out 3 1) (\<lambda>final.
         bindC (liftC (update_last zero_weight (Sequential ([first] @ concat blocks @ [ConcatELU, final])))) (\<lambda>seq.
         bindC (liftC (update_last zero_bias seq)) (\<lambda>seq.
           returnC (GatedConvNet seq)))))))"

definition GatedConvNet_forward :: "rounding \<Rightarrow> network \<Rightarrow> f32 tensor \<Rightarrow> error + f32 tensor" where
  "GatedConvNet_forward rnd net x = forward rnd (nn net) x"

definition GatedLinearNet_init :: "int \<Rightarrow> int \<Rightarrow> network ctor" where
  "GatedLinearNet_init in_features num_layers =
     bindC (Linear_init in_features in_features) (\<lambda>first.
     bindC (mapC (\<lambda>layer_index.
              bindC (GatedLinear_init in_features) (\<lambda>gated.
              bindC (LayerNorm_init in_features) (\<lambda>norm.
                returnC [gated, norm])))
            (py_range num_layers)) (\<lambda>blocks.
     bindC (Linear_init (2 * in_features) (2 * in_features)) (\<lambda>final.
     bindC (liftC (update_last zero_weight (Sequential ([first] @ concat blocks @ [ConcatELU, final])))) (\<lambda>seq.
     bindC (liftC (update_last zero_bias seq)) (\<lambda>seq.
       returnC (GatedLinearNet seq))))))"

definition GatedLinearNet_forward :: "rounding \<Rightarrow> network \<Rightarrow> f32 tensor \<Rightarrow> error + f32 tensor" where
  "GatedLinearNet_forward rnd net x =
     (case shape x of
        [b, c, h, w] \<Rightarrow>
          bindE (torch_flatten1 x) (\<lambda>out.
          bindE (forward rnd (nn net) out) (\<lambda>out.
            torch_reshape out [b, 2 * c, h, w]))
      | _ \<Rightarrow> Inl (ValueError ''wrong number of values to unpack''))"

section \<open>Calls with keyword arguments\<close>

text \<open>
  network.py calls the constructors of the networks with keyword arguments. Python binds
  each keyword to a parameter of \<open>__init__\<close> and raises \<open>TypeError\<close> for a keyword
  that names no parameter.
\<close>

datatype pyval = PyInt int | PyBool bool

definition bind_kwargs :: "string list \<Rightarrow> (string \<times> pyval) list \<Rightarrow> error + (string \<Rightarrow> pyval option)" where
  "bind_kwargs params kwargs =
     (case filter (\<lambda>kv. fst kv \<notin> set params) kwargs of
        [] \<Rightarrow> Inr (map_of kwargs)
      | kv # _ \<Rightarrow> Inl (TypeError (''__init__() got an unexpected keyword argument '' @ fst kv)))"

definition int_arg :: "(string \<Rightarrow> pyval option) \<Rightarrow> string \<Rightarrow> int option \<Rightarrow> error + int" where
  \<comment> \<open>the value of an integer parameter: the argument, or else the default, or else an error\<close>
  "int_arg args name dflt =
     (case args name of
        Some (PyInt i) \<Rightarrow> Inr i
      | Some (PyBool b) \<Rightarrow> Inr (if b then 1 else 0)
      | None \<Rightarrow>
          (case dflt of
             Some d \<Rightarrow> Inr d
           | None \<Rightarrow> Inl (TypeError (''__init__() missing 1 required positional argument: '' @ name))))"

definition GatedConvNet_call :: "(string \<times> pyval) list \<Rightarrow> network ctor" where
  \<comment> \<open>\<open>GatedConvNet(**kwargs)\<close>, for \<open>__init__(self, c_in, c_hidden=32, c_out=-1, num_layers=3)\<close>\<close>
  "GatedConvNet_call kwargs =
     bindC (liftC (bind_kwargs [''c_in'', ''c_hidden'', ''c_out'', ''num_layers''] kwargs)) (\<lambda>args.
     bindC (liftC (int_arg args ''c_in'' None)) (\<lambda>c_in.
     bindC (liftC (int_arg args ''c_hidden'' (Some 32))) (\<lambda>c_hidden.
     bindC (liftC (int_arg args ''c_out'' (Some (- 1)))) (\<lambda>c_out.
     bindC (liftC (int_arg args ''num_layers'' (Some 3))) (\<lambda>num_layers.
       GatedConvNet_init c_in c_hidden c_out num_layers)))))"

definition GatedLinearNet_call :: "(string \<times> pyval) list \<Rightarrow> network ctor" where
  \<comment> \<open>\<open>GatedLinearNet(**kwargs)\<close>, for \<open>__init__(self, in_features, num_layers=3)\<close>\<close>
  "GatedLinearNet_call kwargs =
     bindC (liftC (bind_kwargs [''in_features'', ''num_layers''] kwargs)) (\<lambda>args.
     bindC (liftC (int_arg args ''in_features'' None)) (\<lambda>in_features.
     bindC (liftC (int_arg args ''num_layers'' (Some 3))) (\<lambda>num_layers.
       GatedLinearNet_init in_features num_layers)))"

section \<open>network.py: the flow recipes\<close>

record config =
  config_size :: int
  config_c :: int
  config_model_name :: string
  config_device :: string

text \<open>
  Modelled from the spec: the classes \<open>CouplingLayer\<close>, \<open>SqueezeFlow\<close>, \<open>SplitFlow\<close>
  (flow_models.py), \<open>Dequantization\<close>, \<open>VariationalDequantization\<close>
  (flow_dequantization.py) and \<open>ImageFlow\<close> (flow_template.py) are not among the sources.
  By the spec a coupling layer owns a transform network, a fixed mask and the number of
  input channels, a variational dequantization owns its internal coupling layers, and the
  composed flow holds the ordered sequence of transforms: a constructor call stores its
  arguments and does not raise.
\<close>

datatype flow_layer =
    CouplingLayer network "real tensor" int
  | Dequantization
  | VariationalDequantization "flow_layer list"
  | SqueezeFlow
  | SplitFlow config

record image_flow =
  flows :: "flow_layer list"
  flow_config :: config
  flow_device :: "string option"

definition ImageFlow :: "flow_layer list \<Rightarrow> config \<Rightarrow> image_flow" where
  \<comment> \<open>Modelled from the spec: \<open>ImageFlow(flow_layers, config=config)\<close>\<close>
  "ImageFlow flow_layers config = \<lparr>flows = flow_layers, flow_config = config, flow_device = None\<rparr>"

definition to_device :: "image_flow \<Rightarrow> string \<Rightarrow> image_flow" where
  \<comment> \<open>Modelled from the spec: \<open>net.to(device=d)\<close> returns the same flow, placed on \<open>d\<close>\<close>
  "to_device net d = net\<lparr>flow_device := Some d\<rparr>"

definition torch_tensor :: "real list \<Rightarrow> real tensor" where
  \<comment> \<open>\<open>torch.tensor(xs)\<close> for a list of numbers; the numbers used here are dyadic, and exact\<close>
  "torch_tensor xs = \<lparr>shape = [length xs], data = xs\<rparr>"

definition get_flow_layers :: "int \<Rightarrow> int \<Rightarrow> bool \<Rightarrow> int \<Rightarrow> bool \<Rightarrow> bool \<Rightarrow> flow_layer list ctor" where
  "get_flow_layers size' c vardeq num_layers linear' partial_conv =
     bindC (if vardeq
            then bindC (mapC (\<lambda>i.
                     bindC (GatedConvNet_call [(''c_in'', PyInt (2 * c)), (''c_out'', PyInt (2 * c)),
                              (''c_hidden'', PyInt 16), (''partial_conv'', PyBool partial_conv)]) (\<lambda>network.
                     bindC (liftC (create_checkerboard_mask size' size' (i mod 2 = 1))) (\<lambda>mask.
                       returnC (CouplingLayer network mask (1 * c)))))
                   (py_range 4)) (\<lambda>vardeq_layers.
                 returnC [VariationalDequantization vardeq_layers])
            else returnC [Dequantization]) (\<lambda>flow_layers.
     bindC (mapC (\<lambda>i.
              if \<not> linear'
              then bindC (GatedConvNet_call [(''c_in'', PyInt (1 * c)), (''c_hidden'', PyInt 32),
                            (''partial_conv'', PyBool partial_conv)]) (\<lambda>network.
                   bindC (liftC (create_checkerboard_mask size' size' (i mod 2 = 1))) (\<lambda>mask.
                     returnC (CouplingLayer network mask (1 * c))))
              else let num_features = c * size' * size'
                   in bindC (GatedLinearNet_call [(''in_features'', PyInt num_features)]) (\<lambda>network.
                      bindC (liftC (create_checkerboard_mask size' size' (i mod 2 = 1))) (\<lambda>mask.
                        returnC (CouplingLayer network mask (1 * c)))))
            (py_range num_layers)) (\<lambda>main_flow.
       returnC (flow_layers @ main_flow)))"

definition create_simple_flow :: "config \<Rightarrow> (image_flow \<times> real tensor) ctor" where
  "create_simple_flow config =
     bindC (get_flow_layers (config_size config) (config_c config) False 8 False False) (\<lambda>flow_layers.
       let flow_model = ImageFlow flow_layers config;
           sample_shape_factor = torch_tensor [1, 1, 1, 1]
       in returnC (flow_model, sample_shape_factor))"

definition create_vardeq_flow :: "config \<Rightarrow> (image_flow \<times> real tensor) ctor" where
  "create_vardeq_flow config =
     bindC (get_flow_layers (config_size config) (config_c config) True 8 False False) (\<lambda>flow_layers.
       let flow_model = ImageFlow flow_layers config;
           sample_shape_factor = torch_tensor [1, 1, 1, 1]
       in returnC (flow_model, sample_shape_factor))"

definition create_long_flow :: "config \<Rightarrow> (image_flow \<times> real tensor) ctor" where
  "create_long_flow config =
     bindC (get_flow_layers (config_size config) (config_c config) True 15 False False) (\<lambda>flow_layers.
       let flow_model = ImageFlow flow_layers config;
           sample_shape_factor = torch_tensor [1, 1, 1, 1]
       in returnC (flow_model, sample_shape_factor))"

definition create_linear_flow :: "config \<Rightarrow> (image_flow \<times> real tensor) ctor" where
  "create_linear_flow config =
     bindC (get_flow_layers (config_size config) (config_c config) True 8 True False) (\<lambda>flow_layers.
       let flow_model = ImageFlow flow_layers config;
           sample_shape_factor = torch_tensor [1, 1, 1, 1]
       in returnC (flow_model, sample_shape_factor))"

definition create_partial_conv_flow :: "config \<Rightarrow> (image_flow \<times> real tensor) ctor" where
  "create_partial_conv_flow config =
     bindC (get_flow_layers (config_size config) (config_c config) True 8 False True) (\<lambda>flow_layers.
       let flow_model = ImageFlow flow_layers config;
           sample_shape_factor = torch_tensor [1, 1, 1, 1]
       in returnC (flow_model, sample_shape_factor))"

definition squeeze_twice :: "config \<Rightarrow> bool" where
  \<comment> \<open>the local \<open>squeeze_twice\<close> of \<open>create_multiscale_flow\<close>\<close>
  "squeeze_twice config = (if config_size config mod 4 = 0 \<and> config_size config \<ge> 20 then True else False)"

definition create_multiscale_flow :: "config \<Rightarrow> (image_flow \<times> real tensor) ctor" where
  "create_multiscale_flow config =
     bindC (mapC (\<lambda>i.
              bindC (GatedConvNet_call [(''c_in'', PyInt (2 * config_c config)),
                       (''c_out'', PyInt (2 * config_c config)), (''c_hidden'', PyInt 16)]) (\<lambda>network.
              bindC (liftC (create_checkerboard_mask (config_size config) (config_size config) (i mod 2 = 1))) (\<lambda>mask.
                returnC (CouplingLayer network mask (1 * config_c config)))))
            (py_range 4)) (\<lambda>vardeq_layers.
     bindC (mapC (\<lambda>i.
              bindC (GatedConvNet_call [(''c_in'', PyInt (1 * config_c config)), (''c_hidden'', PyInt 32)]) (\<lambda>network.
              bindC (liftC (create_checkerboard_mask (config_size config) (config_size config) (i mod 2 = 1))) (\<lambda>mask.
                returnC (CouplingLayer network mask (1 * config_c config)))))
            (py_range 2)) (\<lambda>coupling_a.
     bindC (mapC (\<lambda>i.
              bindC (GatedConvNet_call [(''c_in'', PyInt (4 * config_c config)), (''c_hidden'', PyInt 48)]) (\<lambda>network.
              bindC (liftC (create_channel_mask (4 * config_c config) (i mod 2 = 1))) (\<lambda>mask.
                returnC (CouplingLayer network mask (4 * config_c config)))))
            (py_range 2)) (\<lambda>coupling_b.
       let flow_layers = [VariationalDequantization vardeq_layers] @ coupling_a @ [SqueezeFlow]
                           @ coupling_b @ [SplitFlow config]
       in if squeeze_twice config
          then bindC (mapC (\<lambda>i.
                   bindC (GatedConvNet_call [(''c_in'', PyInt (8 * config_c config)), (''c_hidden'', PyInt 64)]) (\<lambda>network.
                   bindC (liftC (create_channel_mask (8 * config_c config) (i mod 2 = 1))) (\<lambda>mask.
                     returnC (CouplingLayer network mask (8 * config_c config)))))
                 (py_range 4)) (\<lambda>coupling_c.
                 let flow_layers = flow_layers @ [SqueezeFlow] @ coupling_c;
                     sample_shape_factor = torch_tensor [1, 8, 0.25, 0.25];
                     flow_model = ImageFlow flow_layers config
                 in returnC (flow_model, sample_shape_factor))
          else bindC (mapC (\<lambda>i.
                   bindC (GatedConvNet_call [(''c_in'', PyInt (2 * config_c config)), (''c_hidden'', PyInt 64)]) (\<lambda>network.
                   bindC (liftC (create_channel_mask (2 * config_c config) (i mod 2 = 1))) (\<lambda>mask.
                     returnC (CouplingLayer network mask (2 * config_c config)))))
                 (py_range 4)) (\<lambda>coupling_c.
                 let flow_layers = flow_layers @ coupling_c;
                     sample_shape_factor = torch_tensor [1, 2, 0.5, 0.5];
                     flow_model = ImageFlow flow_layers config
                 in returnC (flow_model, sample_shape_factor)))))"

text \<open>
  \<open>create_flow\<close> selects the recipe with \<open>eval(f"create_{config.model_name}_flow")\<close>. The
  model of \<open>eval\<close> covers the one-line strings of printable characters that consist of one
  name, with optional blanks around it and an optional trailing comment: the name is looked
  up in the namespace of network.py. What \<open>eval\<close> does with any other string is a
  parameter of the model.
\<close>

datatype pyobj = Function string

definition is_ident_start :: "char \<Rightarrow> bool" where
  "is_ident_start ch =
     (let n = (of_char ch :: nat) in (65 \<le> n \<and> n \<le> 90) \<or> (97 \<le> n \<and> n \<le> 122) \<or> n = 95)"

definition is_ident_char :: "char \<Rightarrow> bool" where
  "is_ident_char ch = (is_ident_start ch \<or> (48 \<le> (of_char ch :: nat) \<and> (of_char ch :: nat) \<le> 57))"

definition is_blank :: "char \<Rightarrow> bool" where
  \<comment> \<open>a space or a tab\<close>
  "is_blank ch = ((of_char ch :: nat) \<in> {32, 9})"

definition is_plain :: "char \<Rightarrow> bool" where
  \<comment> \<open>a printable ASCII character or a tab: no line break, no control character\<close>
  "is_plain ch = (let n = (of_char ch :: nat) in n = 9 \<or> (32 \<le> n \<and> n \<le> 126))"

definition py_keywords :: "string list" where
  "py_keywords = [''False'', ''None'', ''True'', ''and'', ''as'', ''assert'', ''async'', ''await'',
     ''break'', ''class'', ''continue'', ''def'', ''del'', ''elif'', ''else'', ''except'',
     ''finally'', ''for'', ''from'', ''global'', ''if'', ''import'', ''in'', ''is'', ''lambda'',
     ''nonlocal'', ''not'', ''or'', ''pass'', ''raise'', ''return'', ''try'', ''while'', ''with'',
     ''yield'']"

definition is_identifier :: "string \<Rightarrow> bool" where
  "is_identifier s = (s \<noteq> [] \<and> is_ident_start (hd s) \<and> list_all is_ident_char s \<and> s \<notin> set py_keywords)"

definition strip_comment :: "string \<Rightarrow> string" where
  "strip_comment s = takeWhile (\<lambda>ch. ch \<noteq> CHR ''#'') s"

definition py_strip :: "string \<Rightarrow> string" where
  "py_strip s = dropWhile is_blank (rev (dropWhile is_blank (rev s)))"

definition known_models :: "string list" where
  "known_models = [''simple'', ''vardeq'', ''long'', ''linear'', ''partial_conv'', ''multiscale'']"

definition lookup_name :: "string \<Rightarrow> error + pyobj" where
  \<comment> \<open>the names of network.py that begin with \<open>create_\<close>: \<open>create_flow\<close> evaluates no other name,
      and no builtin has such a name\<close>
  "lookup_name name =
     (if name \<in> set (map (\<lambda>m. ''create_'' @ m @ ''_flow'') known_models)
           \<union> {''create_flow'', ''create_checkerboard_mask'', ''create_channel_mask''}
      then Inr (Function name)
      else Inl (NameError (''name '' @ [CHR 0x27] @ name @ [CHR 0x27] @ '' is not defined'')))"

definition py_eval :: "(string \<Rightarrow> error + pyobj) \<Rightarrow> string \<Rightarrow> error + pyobj" where
  "py_eval other s =
     (let name = py_strip (strip_comment s)
      in if list_all is_plain s \<and> is_identifier name then lookup_name name else other s)"

definition except_NameError :: "string \<Rightarrow> error + 'a \<Rightarrow> error + 'a" where
  \<comment> \<open>\<open>except NameError: raise NameError(msg)\<close>\<close>
  "except_NameError msg r =
     (case r of Inl (NameError _) \<Rightarrow> Inl (NameError msg) | _ \<Rightarrow> r)"

text \<open>
  \<open>create_flow\<close> is itself a name of the namespace, so the evaluated function can be
  \<open>create_flow\<close>: the call then recurses on the same config until the interpreter's
  recursion limit. The first argument is the number of nested calls that still fit.
  The \<open>print\<close> at the end has no effect on the result and is left out.
\<close>

primrec create_flow :: "nat \<Rightarrow> (string \<Rightarrow> error + pyobj) \<Rightarrow> config \<Rightarrow> (image_flow \<times> real tensor) ctor" where
  "create_flow 0 other config = raiseC (RecursionError ''maximum recursion depth exceeded'')"
| "create_flow (Suc depth) other config =
     bindC (liftC (py_eval other (''create_'' @ config_model_name config @ ''_flow''))) (\<lambda>create_flow_func.
     bindC (\<lambda>g. except_NameError (''Unknown model: '' @ config_model_name config)
              (case create_flow_func of
                 Function name \<Rightarrow>
                   if name = ''create_simple_flow'' then create_simple_flow config g
                   else if name = ''create_vardeq_flow'' then create_vardeq_flow config g
                   else if name = ''create_long_flow'' then create_long_flow config g
                   else if name = ''create_linear_flow'' then create_linear_flow config g
                   else if name = ''create_partial_conv_flow'' then create_partial_conv_flow config g
                   else if name = ''create_multiscale_flow'' then create_multiscale_flow config g
                   else if name = ''create_flow'' then create_flow depth other config g
                   else Inl (TypeError (name @ ''() got an unexpected keyword argument config''))))
       (\<lambda>(net, sample_shape_factor).
          let net = to_device net (config_device config)
          in returnC (net, sample_shape_factor)))"

section \<open>Properties of the masks\<close>

lemma bindE_Inr [simp]: "bindE (Inr x) f = f x"
  by (simp add: bindE_def)

lemma bindE_Inl [simp]: "bindE (Inl e) f = Inl e"
  by (simp add: bindE_def)

lemma div_mod_in_range: "k < n * m \<Longrightarrow> k div m < n \<and> k mod m < (m::nat)"
  by (cases "m = 0") (simp_all add: less_mult_imp_div_less)

lemma meshgrid_sum_data:
  "map F (zip (map (\<lambda>k. map f [0..<n] ! (k div m)) [0..<n * m])
            (map (\<lambda>k. map g [0..<m] ! (k mod m)) [0..<n * m]))
   = map (\<lambda>k. F (f (k div m), g (k mod m))) [0..<n * m]"
proof -
  have "map F (zip (map (\<lambda>k. map f [0..<n] ! (k div m)) [0..<n * m])
            (map (\<lambda>k. map g [0..<m] ! (k mod m)) [0..<n * m]))
     = map (\<lambda>k. F (map f [0..<n] ! (k div m), map g [0..<m] ! (k mod m))) [0..<n * m]"
    by (simp add: zip_map_map zip_same_conv_map comp_def)
  also have "\<dots> = map (\<lambda>k. F (f (k div m), g (k mod m))) [0..<n * m]"
    by (rule map_cong) (auto dest: div_mod_in_range)
  finally show ?thesis .
qed

lemma checkerboard_closed:
  assumes "0 \<le> h" "0 \<le> w"
  shows "create_checkerboard_mask h w False =
     Inr \<lparr>shape = [1, 1, nat h, nat w],
          data = map (\<lambda>k. real_of_int (sint (word_of_int (fmod_trunc
                   (sint (word_of_nat (k div nat w) + word_of_nat (k mod nat w) :: int32)) 2) :: int32)))
                   [0..<nat h * nat w]\<rparr>"
  using assms
  by (simp add: create_checkerboard_mask_def torch_arange_int32_def torch_meshgrid_ij_def
      tensor_add_def torch_fmod_def to_float32_def torch_view_def meshgrid_sum_data Let_def comp_def)

lemma checkerboard_invert:
  "create_checkerboard_mask h w True = map_sum id (rsub 1) (create_checkerboard_mask h w False)"
  by (simp add: create_checkerboard_mask_def bindE_def Let_def split: sum.splits prod.splits)

lemma sint_sum_small:
  assumes "i + j < 2 ^ 31"
  shows "sint (word_of_nat i + word_of_nat j :: int32) = int i + int j"
proof -
  have "int (i + j) < 2 ^ 31"
    using assms by (metis of_nat_less_iff of_nat_numeral of_nat_power)
  moreover have "- (2 ^ 31) \<le> int (i + j)"
    by (rule order_trans [of _ 0]) simp_all
  ultimately have "signed_take_bit 31 (int (i + j)) = int (i + j)"
    by (intro signed_take_bit_int_eq_self)
  moreover have "sint (word_of_nat (i + j) :: int32) = signed_take_bit 31 (int (i + j))"
    by (simp only: signed_of_nat) simp
  moreover have "(word_of_nat (i + j) :: int32) = word_of_nat i + word_of_nat j"
    by simp
  ultimately show ?thesis by simp
qed

lemma fmod_trunc_nonneg: "0 \<le> a \<Longrightarrow> fmod_trunc a 2 = a mod 2"
  by (cases "a = 0") (simp_all add: fmod_trunc_def)

lemma cb_entry_small:
  assumes "i + j < 2 ^ 31"
  shows "real_of_int (sint (word_of_int (fmod_trunc
           (sint (word_of_nat i + word_of_nat j :: int32)) 2) :: int32)) = real ((i + j) mod 2)"
proof -
  have "(int i + int j) mod 2 = 0 \<or> (int i + int j) mod 2 = 1" by presburger
  then have "sint (word_of_int ((int i + int j) mod 2) :: int32) = (int i + int j) mod 2"
    by auto
  moreover have "(int i + int j) mod 2 = int ((i + j) mod 2)"
    by (simp add: zmod_int)
  ultimately show ?thesis
    using assms by (simp add: sint_sum_small fmod_trunc_nonneg)
qed

lemma cb_entry_overflow:
  "real_of_int (sint (word_of_int (fmod_trunc
           (sint (word_of_nat 2147483646 + word_of_nat 3 :: int32)) 2) :: int32)) = - 1"
  by (simp add: fmod_trunc_def)


lemma ravel4: "ravel [a, b, c, d] [i, j, k, l] = ((i * b + j) * c + k) * d + l"
  by (simp add: ravel_def)

lemma checkerboard_tget:
  assumes "0 \<le> h" "0 \<le> w" "i < nat h" "j < nat w"
  shows "tget (projr (create_checkerboard_mask h w False)) [0, 0, i, j] =
         real_of_int (sint (word_of_int (fmod_trunc
                   (sint (word_of_nat i + word_of_nat j :: int32)) 2) :: int32))"
proof -
  have "i * nat w + j < nat h * nat w"
  proof -
    have "i * nat w + j < i * nat w + nat w" using assms by simp
    also have "\<dots> = Suc i * nat w" by simp
    also have "\<dots> \<le> nat h * nat w" using assms by (intro mult_le_mono1) simp
    finally show ?thesis .
  qed
  moreover have "(i * nat w + j) div nat w = i" "(i * nat w + j) mod nat w = j"
    using assms by simp_all
  ultimately show ?thesis
    using assms by (simp add: checkerboard_closed tget_def ravel4)
qed

lemma checkerboard_values:
  assumes "0 \<le> h" "0 \<le> w" "h + w \<le> 2 ^ 31 + 1"
  shows "data (projr (create_checkerboard_mask h w False)) =
         map (\<lambda>k. real ((k div nat w + k mod nat w) mod 2)) [0..<nat h * nat w]"
proof -
  have "k div nat w + k mod nat w < 2 ^ 31" if "k < nat h * nat w" for k
  proof -
    have "k div nat w < nat h" "k mod nat w < nat w"
      using div_mod_in_range [OF that] by simp_all
    then have "int (k div nat w) + int (k mod nat w) < 2 ^ 31"
      using assms by linarith
    then show ?thesis
      by (metis of_nat_add of_nat_less_iff of_nat_numeral of_nat_power)
  qed
  then have "map (\<lambda>k. real_of_int (sint (word_of_int (fmod_trunc
                   (sint (word_of_nat (k div nat w) + word_of_nat (k mod nat w) :: int32)) 2) :: int32)))
                   [0..<nat h * nat w]
            = map (\<lambda>k. real ((k div nat w + k mod nat w) mod 2)) [0..<nat h * nat w]"
    by (intro map_cong refl cb_entry_small) simp
  then show ?thesis
    using assms by (simp only: checkerboard_closed sum.sel tensor.simps)
qed

lemma channel_closed:
  assumes "0 \<le> c"
  shows "create_channel_mask c False =
     Inr \<lparr>shape = [1, nat c, 1, 1],
          data = replicate (nat (c div 2)) 1 @ replicate (nat (c - c div 2)) 0\<rparr>"
proof -
  have "nat (c div 2) + nat (c - c div 2) = nat c"
    using assms by linarith
  then show ?thesis
    using assms
    by (simp add: create_channel_mask_def torch_ones_def torch_zeros_def torch_cat0_def
        torch_view_def)
qed

lemma channel_invert:
  "create_channel_mask c True = map_sum id (rsub 1) (create_channel_mask c False)"
  by (simp add: create_channel_mask_def bindE_def split: sum.splits)

lemma rsub_rsub: "rsub 1 (rsub 1 m) = (m :: real tensor)"
  by (simp add: rsub_def comp_def)

lemma rsub_binary: "set (data m) \<subseteq> {0, 1} \<Longrightarrow> set (data (rsub 1 m)) \<subseteq> {0, 1}"
  by (auto simp: rsub_def)


lemma tget_rsub:
  "ravel (shape m) idx < length (data m) \<Longrightarrow> tget (rsub s m) idx = s - tget m idx"
  by (simp add: tget_def rsub_def)

lemma shape_rsub [simp]: "shape (rsub s m) = shape m"
  by (simp add: rsub_def)

lemma ravel_cb_less:
  assumes "i < h" "j < w"
  shows "ravel [1, 1, h, w] [0, 0, i, j] < h * w"
proof -
  have "i * w + j < i * w + w" using assms by simp
  also have "\<dots> = Suc i * w" by simp
  also have "\<dots> \<le> h * w" using assms by (intro mult_le_mono1) simp
  finally show ?thesis by (simp add: ravel4)
qed

text \<open>
  Claim C4, as amended. For every height \<open>h \<ge> 1\<close> and width \<open>w \<ge> 1\<close> with
  \<open>h + w \<le> 2^31 + 1\<close> (so that no index sum \<open>i + j\<close> leaves the int32 range),
  \<open>create_checkerboard_mask h w False\<close> returns a tensor of shape \<open>[1, 1, h, w]\<close> whose entry
  at the spatial position \<open>(i, j)\<close> is \<open>(i + j) mod 2\<close>, and with \<open>invert = True\<close> every entry
  is the complement \<open>1 - ((i + j) mod 2)\<close>.
\<close>

theorem checkerboard_mask_entries:
  assumes "1 \<le> h" "1 \<le> w" "h + w \<le> 2 ^ 31 + 1"
  shows "\<exists>m mi. create_checkerboard_mask h w False = Inr m
           \<and> create_checkerboard_mask h w True = Inr mi
           \<and> shape m = [1, 1, nat h, nat w] \<and> shape mi = [1, 1, nat h, nat w]
           \<and> (\<forall>i<nat h. \<forall>j<nat w.
                 tget m [0, 0, i, j] = real ((i + j) mod 2)
               \<and> tget mi [0, 0, i, j] = 1 - real ((i + j) mod 2))"
proof -
  define m where "m = projr (create_checkerboard_mask h w False)"
  have nn: "0 \<le> h" "0 \<le> w" using assms by simp_all
  have m: "create_checkerboard_mask h w False = Inr m"
    unfolding m_def by (simp add: checkerboard_closed [OF nn])
  have mi: "create_checkerboard_mask h w True = Inr (rsub 1 m)"
    by (simp add: checkerboard_invert m)
  have shp: "shape m = [1, 1, nat h, nat w]" and len: "length (data m) = nat h * nat w"
    unfolding m_def by (simp_all add: checkerboard_closed [OF nn])
  have ent: "tget m [0, 0, i, j] = real ((i + j) mod 2)" if "i < nat h" "j < nat w" for i j
  proof -
    have "int i + int j < 2 ^ 31" using that assms by linarith
    then have "i + j < 2 ^ 31"
      by (metis of_nat_add of_nat_less_iff of_nat_numeral of_nat_power)
    then show ?thesis
      unfolding m_def checkerboard_tget [OF nn that] by (rule cb_entry_small)
  qed
  have enti: "tget (rsub 1 m) [0, 0, i, j] = 1 - real ((i + j) mod 2)"
    if "i < nat h" "j < nat w" for i j
  proof -
    have "ravel (shape m) [0, 0, i, j] < length (data m)"
      unfolding shp len using that by (rule ravel_cb_less)
    then show ?thesis by (simp add: tget_rsub ent [OF that])
  qed
  show ?thesis
    using m mi shp ent enti by auto
qed

text \<open>The hypotheses of C4 hold at \<open>h = 2\<close>, \<open>w = 3\<close>.\<close>

theorem checkerboard_mask_entries_witness:
  "\<exists>m mi. create_checkerboard_mask 2 3 False = Inr m
           \<and> create_checkerboard_mask 2 3 True = Inr mi
           \<and> shape m = [1, 1, 2, 3] \<and> shape mi = [1, 1, 2, 3]
           \<and> (\<forall>i<2. \<forall>j<3.
                 tget m [0, 0, i, j] = real ((i + j) mod 2)
               \<and> tget mi [0, 0, i, j] = 1 - real ((i + j) mod 2))"
  using checkerboard_mask_entries [of 2 3] by simp

text \<open>
  Claim C4 as stated fails: at \<open>h = 2147483647\<close>, \<open>w = 4\<close> the int32 sum at position
  \<open>(2147483646, 3)\<close> wraps to \<open>-2147483647\<close>, whose truncated remainder is \<open>-1\<close>, not
  \<open>(i + j) mod 2 = 1\<close>.
\<close>

theorem checkerboard_mask_entries_counterexample:
  "\<not> isl (create_checkerboard_mask 2147483647 4 False)
   \<and> tget (projr (create_checkerboard_mask 2147483647 4 False)) [0, 0, 2147483646, 3] = - 1
   \<and> tget (projr (create_checkerboard_mask 2147483647 4 False)) [0, 0, 2147483646, 3]
       \<noteq> real ((2147483646 + 3) mod 2)"
proof -
  have "create_checkerboard_mask 2147483647 4 False
        = Inr (projr (create_checkerboard_mask 2147483647 4 False))"
    by (simp add: checkerboard_closed)
  then have "\<not> isl (create_checkerboard_mask 2147483647 4 False)"
    by (metis sum.disc(2))
  moreover have "tget (projr (create_checkerboard_mask 2147483647 4 False)) [0, 0, 2147483646, 3] = - 1"
    using checkerboard_tget [of 2147483647 4 2147483646 3] cb_entry_overflow by simp
  ultimately show ?thesis by simp
qed


lemma checkerboard_binary:
  assumes "0 \<le> h" "0 \<le> w" "h + w \<le> 2 ^ 31 + 1"
  shows "set (data (projr (create_checkerboard_mask h w False))) \<subseteq> {0, 1}"
proof -
  have "real ((a::nat) mod 2) \<in> {0, 1}" for a
  proof -
    have "a mod 2 = 0 \<or> a mod 2 = 1" by presburger
    then show ?thesis by (auto simp del: of_nat_mod)
  qed
  then show ?thesis
    unfolding checkerboard_values [OF assms] by (auto simp del: of_nat_mod)
qed

text \<open>
  Claim C3, as amended. For \<open>h \<ge> 1\<close>, \<open>w \<ge> 1\<close> with \<open>h + w \<le> 2^31 + 1\<close> and for \<open>c \<ge> 1\<close>:
  the mask built with \<open>invert = True\<close> is \<open>1 - m\<close> entrywise for the mask \<open>m\<close> built with
  \<open>invert = False\<close>, both have the same shape, both contain only the values 0 and 1, and
  inverting the inverted mask gives \<open>m\<close> back; for the checkerboard and for the channel mask.
\<close>

theorem mask_invert_complement:
  assumes "1 \<le> h" "1 \<le> w" "h + w \<le> 2 ^ 31 + 1" "1 \<le> c"
  shows "(\<exists>m mi. create_checkerboard_mask h w False = Inr m
            \<and> create_checkerboard_mask h w True = Inr mi
            \<and> mi = rsub 1 m \<and> data mi = map (\<lambda>v. 1 - v) (data m) \<and> shape mi = shape m
            \<and> set (data m) \<subseteq> {0, 1} \<and> set (data mi) \<subseteq> {0, 1}
            \<and> rsub 1 mi = m)
       \<and> (\<exists>m mi. create_channel_mask c False = Inr m
            \<and> create_channel_mask c True = Inr mi
            \<and> mi = rsub 1 m \<and> data mi = map (\<lambda>v. 1 - v) (data m) \<and> shape mi = shape m
            \<and> set (data m) \<subseteq> {0, 1} \<and> set (data mi) \<subseteq> {0, 1}
            \<and> rsub 1 mi = m)"
proof -
  have nn: "0 \<le> h" "0 \<le> w" "0 \<le> c" using assms by simp_all
  define m where "m = projr (create_checkerboard_mask h w False)"
  have m: "create_checkerboard_mask h w False = Inr m"
    unfolding m_def by (simp add: checkerboard_closed nn)
  have mi: "create_checkerboard_mask h w True = Inr (rsub 1 m)"
    by (simp add: checkerboard_invert m)
  have bin: "set (data m) \<subseteq> {0, 1}"
    unfolding m_def using nn(1,2) assms(3) by (rule checkerboard_binary)
  have cb: "\<exists>m mi. create_checkerboard_mask h w False = Inr m
            \<and> create_checkerboard_mask h w True = Inr mi
            \<and> mi = rsub 1 m \<and> data mi = map (\<lambda>v. 1 - v) (data m) \<and> shape mi = shape m
            \<and> set (data m) \<subseteq> {0, 1} \<and> set (data mi) \<subseteq> {0, 1}
            \<and> rsub 1 mi = m"
    using m mi bin rsub_binary [OF bin] by (simp add: rsub_rsub) (simp add: rsub_def)
  define n where "n = projr (create_channel_mask c False)"
  have n: "create_channel_mask c False = Inr n"
    unfolding n_def by (simp add: channel_closed nn)
  have ni: "create_channel_mask c True = Inr (rsub 1 n)"
    by (simp add: channel_invert n)
  have binn: "set (data n) \<subseteq> {0, 1}"
    unfolding n_def by (auto simp: channel_closed nn)
  have ch: "\<exists>m mi. create_channel_mask c False = Inr m
            \<and> create_channel_mask c True = Inr mi
            \<and> mi = rsub 1 m \<and> data mi = map (\<lambda>v. 1 - v) (data m) \<and> shape mi = shape m
            \<and> set (data m) \<subseteq> {0, 1} \<and> set (data mi) \<subseteq> {0, 1}
            \<and> rsub 1 mi = m"
    using n ni binn rsub_binary [OF binn] by (simp add: rsub_rsub) (simp add: rsub_def)
  from cb ch show ?thesis by (rule conjI)
qed

text \<open>The hypotheses of C3 hold at \<open>h = w = 28\<close> and \<open>c = 3\<close>.\<close>

theorem mask_invert_complement_witness:
  "(\<exists>m mi. create_checkerboard_mask 28 28 False = Inr m
            \<and> create_checkerboard_mask 28 28 True = Inr mi
            \<and> mi = rsub 1 m \<and> data mi = map (\<lambda>v. 1 - v) (data m) \<and> shape mi = shape m
            \<and> set (data m) \<subseteq> {0, 1} \<and> set (data mi) \<subseteq> {0, 1}
            \<and> rsub 1 mi = m)
       \<and> (\<exists>m mi. create_channel_mask 3 False = Inr m
            \<and> create_channel_mask 3 True = Inr mi
            \<and> mi = rsub 1 m \<and> data mi = map (\<lambda>v. 1 - v) (data m) \<and> shape mi = shape m
            \<and> set (data m) \<subseteq> {0, 1} \<and> set (data mi) \<subseteq> {0, 1}
            \<and> rsub 1 mi = m)"
  using mask_invert_complement [of 28 28 3] by simp

text \<open>
  Claim C3 as stated fails: the checkerboard mask for \<open>h = 2147483647\<close>, \<open>w = 4\<close> contains
  the value \<open>-1\<close>.
\<close>

theorem mask_invert_complement_counterexample:
  "\<not> isl (create_checkerboard_mask 2147483647 4 False)
   \<and> \<not> set (data (projr (create_checkerboard_mask 2147483647 4 False))) \<subseteq> {0, 1}"
proof -
  let ?m = "projr (create_checkerboard_mask 2147483647 4 False)"
  have eq: "create_checkerboard_mask 2147483647 4 False = Inr ?m"
    by (simp add: checkerboard_closed)
  then have ok: "\<not> isl (create_checkerboard_mask 2147483647 4 False)"
    by (metis sum.disc(2))
  have len: "length (data ?m) = 8589934588"
    by (simp add: checkerboard_closed)
  have "tget ?m [0, 0, 2147483646, 3] = - 1"
    using checkerboard_tget [of 2147483647 4 2147483646 3] cb_entry_overflow by simp
  moreover have "shape ?m = [1, 1, 2147483647, 4]"
    by (simp add: checkerboard_closed)
  ultimately have "data ?m ! 8589934587 = - 1"
    by (simp add: tget_def ravel4)
  moreover have "data ?m ! 8589934587 \<in> set (data ?m)"
    by (rule nth_mem) (simp add: len)
  ultimately have "- 1 \<in> set (data ?m)" by simp
  then have "\<not> set (data ?m) \<subseteq> {0, 1}" by auto
  with ok show ?thesis by simp
qed

text \<open>
  Claim C5. For every channel count \<open>c \<ge> 1\<close>, odd ones included,
  \<open>create_channel_mask c False\<close> does not raise and returns a tensor of shape \<open>[1, c, 1, 1]\<close>
  that is 1 on the first \<open>c div 2\<close> channels (floor division) and 0 on the remaining
  \<open>c - c div 2\<close>; with \<open>invert = True\<close> it returns the complement.
\<close>

theorem channel_mask_split:
  assumes "1 \<le> c"
  shows "\<exists>m mi. create_channel_mask c False = Inr m
           \<and> create_channel_mask c True = Inr mi
           \<and> shape m = [1, nat c, 1, 1] \<and> shape mi = [1, nat c, 1, 1]
           \<and> data m = replicate (nat (c div 2)) 1 @ replicate (nat (c - c div 2)) 0
           \<and> (\<forall>k<nat c. tget m [0, k, 0, 0] = (if int k < c div 2 then 1 else 0)
                       \<and> tget mi [0, k, 0, 0] = 1 - tget m [0, k, 0, 0])"
proof -
  have nn: "0 \<le> c" using assms by simp
  define m where "m = projr (create_channel_mask c False)"
  have m: "create_channel_mask c False = Inr m"
    unfolding m_def by (simp add: channel_closed nn)
  have mi: "create_channel_mask c True = Inr (rsub 1 m)"
    by (simp add: channel_invert m)
  have shp: "shape m = [1, nat c, 1, 1]"
    and dat: "data m = replicate (nat (c div 2)) 1 @ replicate (nat (c - c div 2)) 0"
    unfolding m_def by (simp_all add: channel_closed nn)
  have len: "length (data m) = nat c"
    unfolding dat using nn by simp
  have rav: "ravel (shape m) [0, k, 0, 0] = k" for k
    by (simp add: shp ravel4)
  have ent: "tget m [0, k, 0, 0] = (if int k < c div 2 then 1 else 0)" if "k < nat c" for k
  proof (cases "int k < c div 2")
    case True
    then have "k < nat (c div 2)" by linarith
    then show ?thesis using True by (simp add: tget_def rav dat nth_append)
  next
    case False
    then have "\<not> k < nat (c div 2)" by linarith
    moreover have "k - nat (c div 2) < nat (c - c div 2)"
      using that False nn by linarith
    ultimately show ?thesis using False by (simp add: tget_def rav dat nth_append)
  qed
  have enti: "tget (rsub 1 m) [0, k, 0, 0] = 1 - tget m [0, k, 0, 0]" if "k < nat c" for k
    using that by (simp add: tget_rsub rav len)
  show ?thesis
    using m mi shp dat ent enti by auto
qed

text \<open>The hypothesis of C5 holds at the odd count \<open>c = 5\<close>.\<close>

theorem channel_mask_split_witness:
  "\<exists>m mi. create_channel_mask 5 False = Inr m
           \<and> create_channel_mask 5 True = Inr mi
           \<and> shape m = [1, 5, 1, 1] \<and> shape mi = [1, 5, 1, 1]
           \<and> data m = [1, 1, 0, 0, 0]
           \<and> (\<forall>k<5. tget m [0, k, 0, 0] = (if int k < 2 then 1 else 0)
                       \<and> tget mi [0, k, 0, 0] = 1 - tget m [0, k, 0, 0])"
  using channel_mask_split [of 5] by (simp add: numeral_eq_Suc)
section \<open>Properties of the gated networks\<close>

lemma shape_tbuild [simp]: "shape (tbuild shp f) = shp"
  by (simp add: tbuild_def)

lemma shape_tmap [simp]: "shape (tmap f x) = shape x"
  by (simp add: tmap_def)

lemma conv2d_forward_shape:
  assumes "shape x = [b, cin, h, w]" "k \<le> h + 2 * p" "k \<le> w + 2 * p"
  shows "\<exists>y. conv2d_forward rnd cin cout k p ps x = Inr y
            \<and> shape y = [b, cout, h + 2 * p - k + 1, w + 2 * p - k + 1]"
  using assms by (simp add: conv2d_forward_def)

lemma ConcatELU_forward_shape:
  assumes "shape x = n # c # r"
  shows "\<exists>y. ConcatELU_forward rnd x = Inr y \<and> shape y = n # (2 * c) # r"
  using assms by (simp add: ConcatELU_forward_def torch_cat1_def)

lemma gate_update_shape:
  assumes "shape x = n # c # r" "shape out = n # (2 * c) # r"
  shows "\<exists>y. gate_update rnd x out = Inr y \<and> shape y = n # c # r"
proof -
  have k: "(2 * c + 1) div 2 = c" by simp
  show ?thesis
  proof (cases "2 * c = 1")
    case True
    then have False by presburger
    then show ?thesis ..
  next
    case False
    then show ?thesis
      using assms
      by (simp add: gate_update_def torch_chunk2_dim1_def unpack2_def tensor_binop_def k Let_def)
  qed
qed

lemma linear_forward_shape:
  assumes "shape x = [b, fin]"
  shows "\<exists>y. linear_forward rnd fin fout ps x = Inr y \<and> shape y = [b, fout]"
  using assms by (simp add: linear_forward_def)

lemma layer_norm_forward_shape:
  assumes "shape x = s @ [n]"
  shows "\<exists>y. layer_norm_forward rnd n ps x = Inr y \<and> shape y = s @ [n]"
  using assms by (simp add: layer_norm_forward_def)

lemma permute_0231:
  assumes "shape x = [b, c, h, w]"
  shows "\<exists>y. torch_permute x [0, 2, 3, 1] = Inr y \<and> shape y = [b, h, w, c]"
  using assms by (simp add: torch_permute_def upt_rec numeral_eq_Suc sort_key_def)

lemma permute_0312:
  assumes "shape x = [b, h, w, c]"
  shows "\<exists>y. torch_permute x [0, 3, 1, 2] = Inr y \<and> shape y = [b, c, h, w]"
  using assms by (simp add: torch_permute_def upt_rec numeral_eq_Suc)


lemma mult_index_less:
  assumes "i < (a::nat)" "j < b"
  shows "i * b + j < a * b"
proof -
  have "i * b + j < i * b + b" using assms by simp
  also have "\<dots> = Suc i * b" by simp
  also have "\<dots> \<le> a * b" using assms by (intro mult_le_mono1) simp
  finally show ?thesis .
qed

lemma ravel4_less:
  assumes "i < a" "j < b" "k < c" "l < d"
  shows "ravel [a, b, c, d] [i, j, k, l] < a * b * c * d"
  unfolding ravel4
  by (intro mult_index_less assms)

lemma last_unravel: "s \<noteq> [] \<Longrightarrow> last (unravel s k) = k mod last s"
  by (induction s) (auto simp: neq_Nil_conv)

lemma length_unravel [simp]: "length (unravel s k) = length s"
  by (induction s) simp_all

lemma unravel4_channel:
  assumes "k < prod_list [b, c, h, w]"
  shows "unravel [b, c, h, w] k ! 1 < c"
proof -
  have "0 < c" using assms by (cases c) simp_all
  then show ?thesis by simp
qed

lemma tbuild_const:
  assumes "\<And>n. n < prod_list shp \<Longrightarrow> f (unravel shp n) = c"
  shows "tbuild shp f = \<lparr>shape = shp, data = replicate (prod_list shp) c\<rparr>"
proof -
  have "map (\<lambda>n. f (unravel shp n)) [0..<prod_list shp] = map (\<lambda>n. c) [0..<prod_list shp]"
    by (rule map_cong [OF refl]) (simp add: assms)
  then show ?thesis
    by (simp add: tbuild_def map_replicate_const)
qed


lemma fadd_NaN_right [simp]: "fadd rnd x NaN = NaN"
  by (cases x) simp_all

lemma fmul_NaN_right [simp]: "fmul rnd x NaN = NaN"
  by (cases x) simp_all

lemma fmul_zero_fin: "rnd 0 = Fin 0 \<Longrightarrow> is_fin v \<Longrightarrow> fmul rnd (Fin 0) v = Fin 0"
  by (cases v) simp_all

lemma foldl_fadd_zero:
  assumes "rnd 0 = Fin 0" "\<And>v. v \<in> set xs \<Longrightarrow> v = Fin 0"
  shows "foldl (fadd rnd) (Fin 0) xs = Fin 0"
  using assms(2)
proof (induction xs)
  case Nil
  then show ?case by simp
next
  case (Cons a xs)
  have "a = Fin 0" using Cons.prems by simp
  then have "fadd rnd (Fin 0) a = Fin 0" by (simp add: assms(1))
  then show ?case using Cons by simp
qed

lemma fsum_zero:
  assumes "rnd 0 = Fin 0" "\<And>x. x \<in> set xs \<Longrightarrow> f x = Fin 0"
  shows "fsum rnd (map f xs) = Fin 0"
  unfolding fsum_def using assms by (intro foldl_fadd_zero) auto

lemma foldl_fadd_NaN: "foldl (fadd rnd) NaN xs = NaN"
  by (induction xs) simp_all

lemma fsum_NaN:
  assumes "NaN \<in> set xs"
  shows "fsum rnd xs = NaN"
proof -
  have "foldl (fadd rnd) acc xs = NaN" for acc
    using assms by (induction xs arbitrary: acc) (auto simp: foldl_fadd_NaN)
  then show ?thesis by (simp add: fsum_def)
qed

lemma tget_in_set4:
  assumes "length (data x) = prod_list (shape x)" "shape x = [b, c, h, w]"
    "i < b" "j < c" "k < h" "l < w"
  shows "tget x [i, j, k, l] \<in> set (data x)"
proof -
  have "ravel [b, c, h, w] [i, j, k, l] < length (data x)"
    using ravel4_less [OF assms(3-6)] assms(1,2) by simp
  then show ?thesis
    unfolding tget_def assms(2) by (rule nth_mem)
qed

lemma tget_in_set2:
  assumes "length (data x) = prod_list (shape x)" "shape x = [b, f]" "i < b" "k < f"
  shows "tget x [i, k] \<in> set (data x)"
proof -
  have "ravel [b, f] [i, k] = i * f + k" by (simp add: ravel_def)
  moreover have "i * f + k < length (data x)"
    using mult_index_less [OF assms(3,4)] assms(1,2) by simp
  ultimately show ?thesis
    unfolding tget_def assms(2) by (simp only: nth_mem)
qed

lemma unravel4_batch:
  assumes "k < prod_list [b, c, h, w]"
  shows "unravel [b, c, h, w] k ! 0 < b"
proof -
  have "0 < b" using assms by (cases b) simp_all
  then show ?thesis by simp
qed

lemma padded_get_fin:
  assumes "length (data x) = prod_list (shape x)" "shape x = [b, c, h, w]"
    "\<And>v. v \<in> set (data x) \<Longrightarrow> is_fin v" "bi < b" "ci < c"
  shows "is_fin (padded_get x p bi ci y xx)"
proof (cases "p \<le> y \<and> y < h + p \<and> p \<le> xx \<and> xx < w + p")
  case True
  then have "y - p < h" "xx - p < w" by auto
  then have "tget x [bi, ci, y - p, xx - p] \<in> set (data x)"
    using assms(1,2,4,5) by (intro tget_in_set4) auto
  then show ?thesis
    using True assms(2,3) by (simp add: padded_get_def)
next
  case False
  then show ?thesis
    using assms(2) by (auto simp: padded_get_def)
qed

lemma conv2d_zero:
  assumes rnd: "rnd 0 = Fin 0"
    and x: "shape x = [b, cin, h, w]" "k \<le> h + 2 * p" "k \<le> w + 2 * p"
    and wf: "length (data x) = prod_list (shape x)"
    and fin: "\<And>v. v \<in> set (data x) \<Longrightarrow> is_fin v"
  shows "conv2d_forward rnd cin cout k p
           \<lparr>weight = replicate (cout * cin * k * k) (Fin 0), bias = replicate cout (Fin 0)\<rparr> x
         = Inr \<lparr>shape = [b, cout, h + 2 * p - k + 1, w + 2 * p - k + 1],
                data = replicate (prod_list [b, cout, h + 2 * p - k + 1, w + 2 * p - k + 1]) (Fin 0)\<rparr>"
proof -
  let ?h = "h + 2 * p - k + 1" and ?w = "w + 2 * p - k + 1"
  let ?ps = "\<lparr>weight = replicate (cout * cin * k * k) (Fin 0), bias = replicate cout (Fin 0)\<rparr>"
  let ?f = "\<lambda>idx. fadd rnd (bias ?ps ! (idx ! 1))
                    (fsum rnd (map (\<lambda>(ci, di, dj).
                          fmul rnd (weight ?ps ! ravel [cout, cin, k, k] [idx ! 1, ci, di, dj])
                            (padded_get x p (idx ! 0) ci (idx ! 2 + di) (idx ! 3 + dj)))
                        (List.product [0..<cin] (List.product [0..<k] [0..<k]))))"
  have zero: "?f (unravel [b, cout, ?h, ?w] n) = Fin 0" if n: "n < prod_list [b, cout, ?h, ?w]" for n
  proof -
    let ?idx = "unravel [b, cout, ?h, ?w] n"
    have o: "?idx ! 1 < cout" using n by (rule unravel4_channel)
    have bi: "?idx ! 0 < b" using n by (rule unravel4_batch)
    have "fmul rnd (weight ?ps ! ravel [cout, cin, k, k] [?idx ! 1, ci, di, dj])
            (padded_get x p (?idx ! 0) ci (?idx ! 2 + di) (?idx ! 3 + dj)) = Fin 0"
      if "ci < cin" "di < k" "dj < k" for ci di dj
    proof -
      have "weight ?ps ! ravel [cout, cin, k, k] [?idx ! 1, ci, di, dj] = Fin 0"
        using ravel4_less [OF o that] by simp
      moreover have "is_fin (padded_get x p (?idx ! 0) ci (?idx ! 2 + di) (?idx ! 3 + dj))"
        using wf x(1) fin bi that(1) by (rule padded_get_fin)
      ultimately show ?thesis
        by (simp only: fmul_zero_fin [of rnd, OF rnd])
    qed
    then have "fsum rnd (map (\<lambda>(ci, di, dj).
                          fmul rnd (weight ?ps ! ravel [cout, cin, k, k] [?idx ! 1, ci, di, dj])
                            (padded_get x p (?idx ! 0) ci (?idx ! 2 + di) (?idx ! 3 + dj)))
                        (List.product [0..<cin] (List.product [0..<k] [0..<k]))) = Fin 0"
      by (intro fsum_zero [of rnd, OF rnd]) auto
    moreover have "bias ?ps ! (?idx ! 1) = Fin 0" using o by simp
    ultimately show ?thesis by (simp only: fadd.simps add_0 rnd)
  qed
  have "tbuild [b, cout, ?h, ?w] ?f
        = \<lparr>shape = [b, cout, ?h, ?w], data = replicate (prod_list [b, cout, ?h, ?w]) (Fin 0)\<rparr>"
    using zero by (rule tbuild_const)
  moreover have "conv2d_forward rnd cin cout k p ?ps x = Inr (tbuild [b, cout, ?h, ?w] ?f)"
    using x unfolding conv2d_forward_def by (simp del: prod_list.Cons)
  ultimately show ?thesis by (simp only:)
qed

lemma linear_zero:
  assumes rnd: "rnd 0 = Fin 0"
    and x: "shape x = [b, fin]"
    and wf: "length (data x) = prod_list (shape x)"
    and fin: "\<And>v. v \<in> set (data x) \<Longrightarrow> is_fin v"
  shows "linear_forward rnd fin fout
           \<lparr>weight = replicate (fout * fin) (Fin 0), bias = replicate fout (Fin 0)\<rparr> x
         = Inr \<lparr>shape = [b, fout], data = replicate (prod_list [b, fout]) (Fin 0)\<rparr>"
proof -
  let ?ps = "\<lparr>weight = replicate (fout * fin) (Fin 0), bias = replicate fout (Fin 0)\<rparr>"
  let ?f = "\<lambda>idx. fadd rnd (bias ?ps ! last idx)
                (fsum rnd (map (\<lambda>k. fmul rnd (weight ?ps ! (last idx * fin + k)) (tget x (butlast idx @ [k])))
                    [0..<fin]))"
  have zero: "?f (unravel [b, fout] n) = Fin 0" if n: "n < prod_list [b, fout]" for n
  proof -
    let ?idx = "unravel [b, fout] n"
    have pos: "0 < fout" "0 < b" using n by (cases fout; cases b; simp)+
    have o: "last ?idx < fout" using pos by simp
    have bl: "butlast ?idx = [(n div fout) mod b]" "(n div fout) mod b < b"
      using pos by simp_all
    have "fmul rnd (weight ?ps ! (last ?idx * fin + k)) (tget x (butlast ?idx @ [k])) = Fin 0"
      if "k < fin" for k
    proof -
      have "weight ?ps ! (last ?idx * fin + k) = Fin 0"
        using mult_index_less [OF o that] by simp
      moreover have "tget x (butlast ?idx @ [k]) \<in> set (data x)"
        unfolding bl(1) using wf x bl(2) that by (simp add: tget_in_set2)
      ultimately show ?thesis
        using fin by (simp only: fmul_zero_fin [of rnd, OF rnd])
    qed
    then have "fsum rnd (map (\<lambda>k. fmul rnd (weight ?ps ! (last ?idx * fin + k))
                   (tget x (butlast ?idx @ [k]))) [0..<fin]) = Fin 0"
      by (intro fsum_zero [of rnd, OF rnd]) auto
    moreover have "bias ?ps ! last ?idx = Fin 0" using o by simp
    ultimately show ?thesis by (simp only: fadd.simps add_0 rnd)
  qed
  have "tbuild [b, fout] ?f = \<lparr>shape = [b, fout], data = replicate (prod_list [b, fout]) (Fin 0)\<rparr>"
    using zero by (rule tbuild_const)
  moreover have "linear_forward rnd fin fout ?ps x = Inr (tbuild [b, fout] ?f)"
    using x unfolding linear_forward_def by (simp del: prod_list.Cons)
  ultimately show ?thesis by (simp only:)
qed

lemma bindC_Inr: "m g = Inr (x, g') \<Longrightarrow> bindC m f g = f x g'"
  by (simp add: bindC_def)

lemma bindC_Inl: "m g = Inl e \<Longrightarrow> bindC m f g = Inl e"
  by (simp add: bindC_def)

lemma returnC_apply [simp]: "returnC x g = Inr (x, g)"
  by (simp add: returnC_def)

lemma liftC_Inr [simp]: "liftC (Inr x) g = Inr (x, g)"
  by (simp add: liftC_def)

lemma liftC_Inl [simp]: "liftC (Inl e) g = Inl e"
  by (simp add: liftC_def)

lemma Conv2d_init_ok:
  assumes "0 \<le> cin" "0 \<le> cout"
  shows "\<exists>ps g'. Conv2d_init cin cout k p g = Inr (Conv2d (nat cin) (nat cout) k p ps, g')
           \<and> length (weight ps) = nat cout * nat cin * k * k \<and> length (bias ps) = nat cout"
  using assms by (simp add: Conv2d_init_def draw_def)

lemma Linear_init_ok:
  assumes "0 \<le> fin" "0 \<le> fout"
  shows "\<exists>ps g'. Linear_init fin fout g = Inr (Linear (nat fin) (nat fout) ps, g')
           \<and> length (weight ps) = nat fout * nat fin \<and> length (bias ps) = nat fout"
  using assms by (simp add: Linear_init_def draw_def)

lemma LayerNorm_init_ok:
  assumes "0 \<le> n"
  shows "\<exists>ps. LayerNorm_init n g = Inr (LayerNorm (nat n) ps, g)"
  using assms by (simp add: LayerNorm_init_def)

lemma GatedConv_forward_shape:
  assumes "shape x = [b, c, h, w]" "1 \<le> h" "1 \<le> w"
  shows "\<exists>y. forward rnd (GatedConv (Sequential [Conv2d c ch 3 1 pa, ConcatELU,
                  Conv2d (2 * ch) (2 * c) 1 0 pb])) x = Inr y \<and> shape y = [b, c, h, w]"
proof -
  obtain y1 where y1: "conv2d_forward rnd c ch 3 1 pa x = Inr y1" "shape y1 = [b, ch, h, w]"
    using conv2d_forward_shape [OF assms(1), where k = 3 and p = 1 and cout = ch and ps = pa and rnd = rnd] assms(2,3) by auto
  obtain y2 where y2: "ConcatELU_forward rnd y1 = Inr y2" "shape y2 = [b, 2 * ch, h, w]"
    using ConcatELU_forward_shape [OF y1(2), where rnd = rnd] by auto
  obtain y3 where y3: "conv2d_forward rnd (2 * ch) (2 * c) 1 0 pb y2 = Inr y3"
      "shape y3 = [b, 2 * c, h, w]"
    using conv2d_forward_shape [OF y2(2), where k = 1 and p = 0 and cout = "2 * c" and ps = pb and rnd = rnd] assms(2,3) by auto
  obtain y where y: "gate_update rnd x y3 = Inr y" "shape y = [b, c, h, w]"
    using gate_update_shape [OF assms(1) y3(2), where rnd = rnd] by auto
  show ?thesis
    using y1 y2 y3 y by simp
qed

lemma LayerNormChannels_forward_shape:
  assumes "shape x = [b, c, h, w]"
  shows "\<exists>y. forward rnd (LayerNormChannels (LayerNorm c ps)) x = Inr y \<and> shape y = [b, c, h, w]"
proof -
  obtain y1 where y1: "torch_permute x [0, 2, 3, 1] = Inr y1" "shape y1 = [b, h, w, c]"
    using permute_0231 [OF assms] by auto
  have "shape y1 = [b, h, w] @ [c]" using y1(2) by simp
  then obtain y2 where y2: "layer_norm_forward rnd c ps y1 = Inr y2" "shape y2 = [b, h, w, c]"
    using layer_norm_forward_shape [where x = y1 and s = "[b, h, w]" and n = c and ps = ps and rnd = rnd] by auto
  obtain y where y: "torch_permute y2 [0, 3, 1, 2] = Inr y" "shape y = [b, c, h, w]"
    using permute_0312 [OF y2(2)] by auto
  show ?thesis
    using y1 y2 y by simp
qed

lemma GatedLinear_forward_shape:
  assumes "shape x = [b, f]"
  shows "\<exists>y. forward rnd (GatedLinear (Sequential [Linear f f pa, ConcatELU,
                  Linear (2 * f) (2 * f) pb])) x = Inr y \<and> shape y = [b, f]"
proof -
  obtain y1 where y1: "linear_forward rnd f f pa x = Inr y1" "shape y1 = [b, f]"
    using linear_forward_shape [OF assms, where rnd = rnd] by auto
  obtain y2 where y2: "ConcatELU_forward rnd y1 = Inr y2" "shape y2 = [b, 2 * f]"
    using ConcatELU_forward_shape [OF y1(2), where rnd = rnd] by auto
  obtain y3 where y3: "linear_forward rnd (2 * f) (2 * f) pb y2 = Inr y3" "shape y3 = [b, 2 * f]"
    using linear_forward_shape [OF y2(2), where rnd = rnd] by auto
  obtain y where y: "gate_update rnd x y3 = Inr y" "shape y = [b, f]"
    using gate_update_shape [OF assms y3(2), where rnd = rnd] by auto
  show ?thesis
    using y1 y2 y3 y by simp
qed

lemma LayerNorm_forward_shape:
  assumes "shape x = [b, f]"
  shows "\<exists>y. forward rnd (LayerNorm f ps) x = Inr y \<and> shape y = [b, f]"
  using layer_norm_forward_shape [where x = x and s = "[b]" and n = f and ps = ps and rnd = rnd] assms by simp

lemma forward_all_keeps_shape:
  assumes "\<And>m x. m \<in> set ms \<Longrightarrow> P (shape x) \<Longrightarrow> \<exists>y. forward rnd m x = Inr y \<and> shape y = shape x"
    and "P (shape x)"
  shows "\<exists>y. forward_all rnd ms x = Inr y \<and> shape y = shape x"
  using assms
proof (induction ms arbitrary: x)
  case Nil
  then show ?case by simp
next
  case (Cons m ms)
  obtain y where y: "forward rnd m x = Inr y" "shape y = shape x"
    using Cons.prems(1) [of m x] Cons.prems(2) by auto
  have "\<exists>z. forward_all rnd ms y = Inr z \<and> shape z = shape y"
    using Cons.prems by (intro Cons.IH) (auto simp: y)
  then show ?case by (simp add: y)
qed

lemma forward_all_append:
  "forward_all rnd (ms @ ns) x = bindE (forward_all rnd ms x) (forward_all rnd ns)"
  by (induction ms arbitrary: x) (simp_all add: bindE_def split: sum.splits)

lemma mapC_all:
  assumes "\<And>i g. \<exists>y g'. f i g = Inr (y, g') \<and> P y"
  shows "\<exists>ys g'. mapC f xs g = Inr (ys, g') \<and> (\<forall>y\<in>set ys. P y) \<and> length ys = length xs"
proof (induction xs arbitrary: g)
  case Nil
  then show ?case by simp
next
  case (Cons i xs)
  obtain y g1 where y: "f i g = Inr (y, g1)" "P y"
    using assms by blast
  obtain ys g2 where ys: "mapC f xs g1 = Inr (ys, g2)" "\<forall>y\<in>set ys. P y" "length ys = length xs"
    using Cons.IH by blast
  show ?case
    using y ys by (simp add: bindC_def)
qed


lemma GatedConv_block_ok:
  assumes "0 \<le> ch"
  shows "\<exists>ys g'. bindC (GatedConv_init ch ch) (\<lambda>gated.
                  bindC (LayerNormChannels_init ch) (\<lambda>norm. returnC [gated, norm])) g = Inr (ys, g')
           \<and> (\<forall>m\<in>set ys. \<forall>x b h w. shape x = [b, nat ch, h, w] \<longrightarrow> 1 \<le> h \<longrightarrow> 1 \<le> w
                 \<longrightarrow> (\<exists>y. forward rnd m x = Inr y \<and> shape y = shape x))"
proof -
  have ch2: "0 \<le> 2 * ch" "nat (2 * ch) = 2 * nat ch" using assms by simp_all
  obtain pa g1 where a: "Conv2d_init ch ch 3 1 g = Inr (Conv2d (nat ch) (nat ch) 3 1 pa, g1)"
    using Conv2d_init_ok [OF assms assms] by blast
  obtain pb g2 where b: "Conv2d_init (2 * ch) (2 * ch) 1 0 g1
        = Inr (Conv2d (2 * nat ch) (2 * nat ch) 1 0 pb, g2)"
    using Conv2d_init_ok [OF ch2(1) ch2(1), of 1 0 g1] ch2(2) by auto
  obtain pn where n: "LayerNorm_init ch g2 = Inr (LayerNorm (nat ch) pn, g2)"
    using LayerNorm_init_ok [OF assms] by blast
  let ?gated = "GatedConv (Sequential [Conv2d (nat ch) (nat ch) 3 1 pa, ConcatELU,
                  Conv2d (2 * nat ch) (2 * nat ch) 1 0 pb])"
  let ?norm = "LayerNormChannels (LayerNorm (nat ch) pn)"
  have "bindC (GatedConv_init ch ch) (\<lambda>gated.
          bindC (LayerNormChannels_init ch) (\<lambda>norm. returnC [gated, norm])) g
        = Inr ([?gated, ?norm], g2)"
    using a b n by (simp add: bindC_def GatedConv_init_def LayerNormChannels_init_def)
  moreover have "\<exists>y. forward rnd ?gated x = Inr y \<and> shape y = shape x"
    if "shape x = [b, nat ch, h, w]" "1 \<le> h" "1 \<le> w" for x b h w
    using GatedConv_forward_shape [OF that, where rnd = rnd] that(1) by simp
  moreover have "\<exists>y. forward rnd ?norm x = Inr y \<and> shape y = shape x"
    if "shape x = [b, nat ch, h, w]" for x b h w
    using LayerNormChannels_forward_shape [OF that, where rnd = rnd] that(1) by simp
  ultimately show ?thesis by auto
qed

lemma GatedLinear_block_ok:
  assumes "0 \<le> f"
  shows "\<exists>ys g'. bindC (GatedLinear_init f) (\<lambda>gated.
                  bindC (LayerNorm_init f) (\<lambda>norm. returnC [gated, norm])) g = Inr (ys, g')
           \<and> (\<forall>m\<in>set ys. \<forall>x b. shape x = [b, nat f]
                 \<longrightarrow> (\<exists>y. forward rnd m x = Inr y \<and> shape y = shape x))"
proof -
  have f2: "0 \<le> 2 * f" "nat (2 * f) = 2 * nat f" using assms by simp_all
  obtain pa g1 where a: "Linear_init f f g = Inr (Linear (nat f) (nat f) pa, g1)"
    using Linear_init_ok [OF assms assms] by blast
  obtain pb g2 where b: "Linear_init (2 * f) (2 * f) g1
        = Inr (Linear (2 * nat f) (2 * nat f) pb, g2)"
    using Linear_init_ok [OF f2(1) f2(1), of g1] f2(2) by auto
  obtain pn where n: "LayerNorm_init f g2 = Inr (LayerNorm (nat f) pn, g2)"
    using LayerNorm_init_ok [OF assms] by blast
  let ?gated = "GatedLinear (Sequential [Linear (nat f) (nat f) pa, ConcatELU,
                  Linear (2 * nat f) (2 * nat f) pb])"
  let ?norm = "LayerNorm (nat f) pn"
  have "bindC (GatedLinear_init f) (\<lambda>gated.
          bindC (LayerNorm_init f) (\<lambda>norm. returnC [gated, norm])) g
        = Inr ([?gated, ?norm], g2)"
    using a b n by (simp add: bindC_def GatedLinear_init_def)
  moreover have "\<exists>y. forward rnd ?gated x = Inr y \<and> shape y = shape x"
    if "shape x = [b, nat f]" for x b
    using GatedLinear_forward_shape [OF that, where rnd = rnd] that by simp
  moreover have "\<exists>y. forward rnd ?norm x = Inr y \<and> shape y = shape x"
    if "shape x = [b, nat f]" for x b
    using LayerNorm_forward_shape [OF that, where rnd = rnd] that by simp
  ultimately show ?thesis by auto
qed

lemma GatedConvNet_init_structure:
  assumes "0 \<le> c_in" "0 \<le> c_hidden"
    and co_def: "co = (if c_out > 0 then c_out else 2 * c_in)"
  shows "\<exists>first blocks g'.
     GatedConvNet_init c_in c_hidden c_out num_layers g =
       Inr (GatedConvNet (Sequential (Conv2d (nat c_in) (nat c_hidden) 3 1 first # blocks @
              [ConcatELU, Conv2d (2 * nat c_hidden) (nat co) 3 1
                 \<lparr>weight = replicate (nat co * (2 * nat c_hidden) * 3 * 3) (Fin 0),
                  bias = replicate (nat co) (Fin 0)\<rparr>])), g')
     \<and> (\<forall>m\<in>set blocks. \<forall>x b h w. shape x = [b, nat c_hidden, h, w] \<longrightarrow> 1 \<le> h \<longrightarrow> 1 \<le> w
           \<longrightarrow> (\<exists>y. forward rnd m x = Inr y \<and> shape y = shape x))"
proof -
  let ?P = "\<lambda>m. \<forall>x b h w. shape x = [b, nat c_hidden, h, w] \<longrightarrow> 1 \<le> h \<longrightarrow> 1 \<le> w
           \<longrightarrow> (\<exists>y. forward rnd m x = Inr y \<and> shape y = shape x)"
  let ?blk = "\<lambda>layer_index::nat. bindC (GatedConv_init c_hidden c_hidden) (\<lambda>gated.
                  bindC (LayerNormChannels_init c_hidden) (\<lambda>norm. returnC [gated, norm]))"
  have co: "0 \<le> co" using assms(1) by (simp add: co_def)
  have ch2: "0 \<le> 2 * c_hidden" "nat (2 * c_hidden) = 2 * nat c_hidden"
    using assms(2) by simp_all
  obtain first g1 where first:
    "Conv2d_init c_in c_hidden 3 1 g = Inr (Conv2d (nat c_in) (nat c_hidden) 3 1 first, g1)"
    using Conv2d_init_ok [OF assms(1,2)] by blast
  obtain blocks g2 where blocks:
    "mapC ?blk (py_range num_layers) g1 = Inr (blocks, g2)" "\<forall>ys\<in>set blocks. \<forall>m\<in>set ys. ?P m"
    using mapC_all [of ?blk "\<lambda>ys. \<forall>m\<in>set ys. ?P m" "py_range num_layers" g1]
      GatedConv_block_ok [OF assms(2)] by blast
  obtain pf g3 where final:
    "Conv2d_init (2 * c_hidden) co 3 1 g2 = Inr (Conv2d (2 * nat c_hidden) (nat co) 3 1 pf, g3)"
    "length (weight pf) = nat co * (2 * nat c_hidden) * 3 * 3" "length (bias pf) = nat co"
    using Conv2d_init_ok [OF ch2(1) co, of 3 1 g2] ch2(2) by auto
  have zw: "map (\<lambda>_. Fin 0) (weight pf) = replicate (nat co * (2 * nat c_hidden) * 3 * 3) (Fin 0)"
    and zb: "map (\<lambda>_. Fin 0) (bias pf) = replicate (nat co) (Fin 0)"
    using final(2,3) by (simp_all add: map_replicate_const)
  have "GatedConvNet_init c_in c_hidden c_out num_layers g =
       Inr (GatedConvNet (Sequential (Conv2d (nat c_in) (nat c_hidden) 3 1 first # concat blocks @
              [ConcatELU, Conv2d (2 * nat c_hidden) (nat co) 3 1
                 \<lparr>weight = replicate (nat co * (2 * nat c_hidden) * 3 * 3) (Fin 0),
                  bias = replicate (nat co) (Fin 0)\<rparr>])), g3)"
    unfolding GatedConvNet_init_def Let_def co_def [symmetric]
    using first blocks(1) final(1) zw zb
    by (simp add: bindC_def update_last_def zero_weight_def zero_bias_def butlast_append)
  moreover have "\<forall>m\<in>set (concat blocks). ?P m"
    using blocks(2) by auto
  ultimately show ?thesis by blast
qed


lemma GatedLinearNet_init_structure:
  assumes "0 \<le> f"
  shows "\<exists>first blocks g'.
     GatedLinearNet_init f num_layers g =
       Inr (GatedLinearNet (Sequential (Linear (nat f) (nat f) first # blocks @
              [ConcatELU, Linear (2 * nat f) (2 * nat f)
                 \<lparr>weight = replicate (2 * nat f * (2 * nat f)) (Fin 0),
                  bias = replicate (2 * nat f) (Fin 0)\<rparr>])), g')
     \<and> (\<forall>m\<in>set blocks. \<forall>x b. shape x = [b, nat f]
           \<longrightarrow> (\<exists>y. forward rnd m x = Inr y \<and> shape y = shape x))"
proof -
  let ?P = "\<lambda>m. \<forall>x b. shape x = [b, nat f] \<longrightarrow> (\<exists>y. forward rnd m x = Inr y \<and> shape y = shape x)"
  let ?blk = "\<lambda>layer_index::nat. bindC (GatedLinear_init f) (\<lambda>gated.
                  bindC (LayerNorm_init f) (\<lambda>norm. returnC [gated, norm]))"
  have f2: "0 \<le> 2 * f" "nat (2 * f) = 2 * nat f"
    using assms by simp_all
  obtain first g1 where first:
    "Linear_init f f g = Inr (Linear (nat f) (nat f) first, g1)"
    using Linear_init_ok [OF assms assms] by blast
  obtain blocks g2 where blocks:
    "mapC ?blk (py_range num_layers) g1 = Inr (blocks, g2)" "\<forall>ys\<in>set blocks. \<forall>m\<in>set ys. ?P m"
    using mapC_all [of ?blk "\<lambda>ys. \<forall>m\<in>set ys. ?P m" "py_range num_layers" g1]
      GatedLinear_block_ok [OF assms] by blast
  obtain pf g3 where final:
    "Linear_init (2 * f) (2 * f) g2 = Inr (Linear (2 * nat f) (2 * nat f) pf, g3)"
    "length (weight pf) = 2 * nat f * (2 * nat f)" "length (bias pf) = 2 * nat f"
    using Linear_init_ok [OF f2(1) f2(1), of g2] f2(2) by auto
  have zw: "map (\<lambda>_. Fin 0) (weight pf) = replicate (2 * nat f * (2 * nat f)) (Fin 0)"
    and zb: "map (\<lambda>_. Fin 0) (bias pf) = replicate (2 * nat f) (Fin 0)"
    using final(2,3) by (simp_all add: map_replicate_const)
  have "GatedLinearNet_init f num_layers g =
       Inr (GatedLinearNet (Sequential (Linear (nat f) (nat f) first # concat blocks @
              [ConcatELU, Linear (2 * nat f) (2 * nat f)
                 \<lparr>weight = replicate (2 * nat f * (2 * nat f)) (Fin 0),
                  bias = replicate (2 * nat f) (Fin 0)\<rparr>])), g3)"
    unfolding GatedLinearNet_init_def
    using first blocks(1) final(1) zw zb
    by (simp add: bindC_def update_last_def zero_weight_def zero_bias_def butlast_append)
  moreover have "\<forall>m\<in>set (concat blocks). ?P m"
    using blocks(2) by auto
  ultimately show ?thesis by blast
qed

lemma length_data_tbuild [simp]: "length (data (tbuild shp f)) = prod_list shp"
  by (simp add: tbuild_def)

lemma ConcatELU_forward_wf:
  assumes "shape x = n # c # r"
  shows "\<exists>y. ConcatELU_forward rnd x = Inr y \<and> shape y = n # (2 * c) # r
            \<and> length (data y) = prod_list (shape y)"
  using assms by (simp add: ConcatELU_forward_def torch_cat1_def)

lemma linear_forward_wf:
  assumes "shape x = [b, fin]"
  shows "\<exists>y. linear_forward rnd fin fout ps x = Inr y \<and> shape y = [b, fout]
            \<and> length (data y) = prod_list (shape y)"
  using assms by (simp add: linear_forward_def)

lemma conv_net_activation:
  assumes "shape x = [b, cin, h, w]" "1 \<le> h" "1 \<le> w"
    and blocks: "\<And>m x b h w. m \<in> set blocks \<Longrightarrow> shape x = [b, ch, h, w] \<Longrightarrow> 1 \<le> h \<Longrightarrow> 1 \<le> w
           \<Longrightarrow> \<exists>y. forward rnd m x = Inr y \<and> shape y = shape x"
  shows "\<exists>z. forward_all rnd (Conv2d cin ch 3 1 first # blocks @ [ConcatELU]) x = Inr z
            \<and> shape z = [b, 2 * ch, h, w] \<and> length (data z) = prod_list (shape z)"
proof -
  obtain y1 where y1: "conv2d_forward rnd cin ch 3 1 first x = Inr y1" "shape y1 = [b, ch, h, w]"
    using conv2d_forward_shape [OF assms(1), where k = 3 and p = 1 and cout = ch and ps = first and rnd = rnd]
      assms(2,3) by auto
  have "\<exists>y. forward_all rnd blocks y1 = Inr y \<and> shape y = shape y1"
  proof (rule forward_all_keeps_shape [where P = "\<lambda>s. \<exists>b h w. s = [b, ch, h, w] \<and> 1 \<le> h \<and> 1 \<le> w"])
    show "\<exists>b h w. shape y1 = [b, ch, h, w] \<and> 1 \<le> h \<and> 1 \<le> w"
      using y1(2) assms(2,3) by blast
  next
    fix m and z :: "f32 tensor"
    assume "m \<in> set blocks" "\<exists>b h w. shape z = [b, ch, h, w] \<and> 1 \<le> h \<and> 1 \<le> w"
    then show "\<exists>y. forward rnd m z = Inr y \<and> shape y = shape z"
      using blocks by blast
  qed
  then obtain y2 where y2: "forward_all rnd blocks y1 = Inr y2" "shape y2 = [b, ch, h, w]"
    using y1(2) by auto
  obtain y3 where y3: "ConcatELU_forward rnd y2 = Inr y3" "shape y3 = [b, 2 * ch, h, w]"
      "length (data y3) = prod_list (shape y3)"
    using ConcatELU_forward_wf [OF y2(2), where rnd = rnd] by auto
  show ?thesis
    using y1 y2 y3 by (simp add: forward_all_append del: prod_list.Cons)
qed

lemma linear_net_activation:
  assumes "shape x = [b, f]"
    and blocks: "\<And>m x b. m \<in> set blocks \<Longrightarrow> shape x = [b, f]
           \<Longrightarrow> \<exists>y. forward rnd m x = Inr y \<and> shape y = shape x"
  shows "\<exists>z. forward_all rnd (Linear f f first # blocks @ [ConcatELU]) x = Inr z
            \<and> shape z = [b, 2 * f] \<and> length (data z) = prod_list (shape z)"
proof -
  obtain y1 where y1: "linear_forward rnd f f first x = Inr y1" "shape y1 = [b, f]"
    using linear_forward_shape [OF assms(1), where rnd = rnd] by auto
  have "\<exists>y. forward_all rnd blocks y1 = Inr y \<and> shape y = shape y1"
  proof (rule forward_all_keeps_shape [where P = "\<lambda>s. \<exists>b. s = [b, f]"])
    show "\<exists>b. shape y1 = [b, f]"
      using y1(2) by blast
  next
    fix m and z :: "f32 tensor"
    assume "m \<in> set blocks" "\<exists>b. shape z = [b, f]"
    then show "\<exists>y. forward rnd m z = Inr y \<and> shape y = shape z"
      using blocks by blast
  qed
  then obtain y2 where y2: "forward_all rnd blocks y1 = Inr y2" "shape y2 = [b, f]"
    using y1(2) by auto
  obtain y3 where y3: "ConcatELU_forward rnd y2 = Inr y3" "shape y3 = [b, 2 * f]"
      "length (data y3) = prod_list (shape y3)"
    using ConcatELU_forward_wf [OF y2(2), where rnd = rnd] by auto
  show ?thesis
    using y1 y2 y3 by (simp add: forward_all_append del: prod_list.Cons)
qed

lemma forward_all_snoc:
  "forward_all rnd ms x = Inr z \<Longrightarrow> forward_all rnd (ms @ [m]) x = forward rnd m z"
  by (simp add: forward_all_append split: sum.splits)


lemma GatedConvNet_fresh:
  assumes "0 \<le> c_in" "0 \<le> c_hidden"
    and co: "co = nat (if c_out > 0 then c_out else 2 * c_in)"
  obtains net g' ms where
    "GatedConvNet_init c_in c_hidden c_out num_layers g = Inr (net, g')"
    "nn net = Sequential (ms @ [Conv2d (2 * nat c_hidden) co 3 1
        \<lparr>weight = replicate (co * (2 * nat c_hidden) * 3 * 3) (Fin 0), bias = replicate co (Fin 0)\<rparr>])"
    "\<And>x b h w. shape x = [b, nat c_in, h, w] \<Longrightarrow> 1 \<le> h \<Longrightarrow> 1 \<le> w \<Longrightarrow>
        \<exists>z y. forward_all rnd ms x = Inr z \<and> GatedConvNet_forward rnd net x = Inr y
           \<and> shape y = [b, co, h, w]
           \<and> (rnd 0 = Fin 0 \<longrightarrow> list_all is_fin (data z) \<longrightarrow>
                y = \<lparr>shape = [b, co, h, w], data = replicate (prod_list [b, co, h, w]) (Fin 0)\<rparr>)"
proof -
  let ?zero = "\<lparr>weight = replicate (co * (2 * nat c_hidden) * 3 * 3) (Fin 0), bias = replicate co (Fin 0)\<rparr>"
  let ?final = "Conv2d (2 * nat c_hidden) co 3 1 ?zero"
  obtain first blocks g' where init:
    "GatedConvNet_init c_in c_hidden c_out num_layers g =
       Inr (GatedConvNet (Sequential (Conv2d (nat c_in) (nat c_hidden) 3 1 first # blocks @
              [ConcatELU, ?final])), g')"
    and blocks: "\<forall>m\<in>set blocks. \<forall>x b h w. shape x = [b, nat c_hidden, h, w] \<longrightarrow> 1 \<le> h \<longrightarrow> 1 \<le> w
           \<longrightarrow> (\<exists>y. forward rnd m x = Inr y \<and> shape y = shape x)"
    using GatedConvNet_init_structure [OF assms(1,2) refl, of c_out num_layers g rnd]
    unfolding co by blast
  let ?ms = "Conv2d (nat c_in) (nat c_hidden) 3 1 first # blocks @ [ConcatELU]"
  let ?net = "GatedConvNet (Sequential (Conv2d (nat c_in) (nat c_hidden) 3 1 first # blocks @
              [ConcatELU, ?final]))"
  have nn: "nn ?net = Sequential (?ms @ [?final])" by simp
  have fw: "\<exists>z y. forward_all rnd ?ms x = Inr z \<and> GatedConvNet_forward rnd ?net x = Inr y
           \<and> shape y = [b, co, h, w]
           \<and> (rnd 0 = Fin 0 \<longrightarrow> list_all is_fin (data z) \<longrightarrow>
                y = \<lparr>shape = [b, co, h, w], data = replicate (prod_list [b, co, h, w]) (Fin 0)\<rparr>)"
    if x: "shape x = [b, nat c_in, h, w]" "1 \<le> h" "1 \<le> w" for x b h w
  proof -
    obtain z where z: "forward_all rnd ?ms x = Inr z" "shape z = [b, 2 * nat c_hidden, h, w]"
        "length (data z) = prod_list (shape z)"
      using conv_net_activation [OF x, where rnd = rnd and blocks = blocks and ch = "nat c_hidden"
          and first = first] blocks by blast
    have hw: "3 \<le> h + 2 * 1" "3 \<le> w + 2 * 1" "h + 2 * 1 - 3 + 1 = h" "w + 2 * 1 - 3 + 1 = w"
      using x(2,3) by simp_all
    obtain y where y: "conv2d_forward rnd (2 * nat c_hidden) co 3 1 ?zero z = Inr y"
        "shape y = [b, co, h, w]"
      using conv2d_forward_shape [OF z(2) hw(1,2), where rnd = rnd and cout = co and ps = ?zero]
      unfolding hw(3,4) by blast
    have fwd: "GatedConvNet_forward rnd ?net x = Inr y"
      unfolding GatedConvNet_forward_def nn forward.simps forward_all_snoc [OF z(1)]
      by (rule y(1))
    have "y = \<lparr>shape = [b, co, h, w], data = replicate (prod_list [b, co, h, w]) (Fin 0)\<rparr>"
      if rnd: "rnd 0 = Fin 0" and fin: "list_all is_fin (data z)"
    proof -
      have "conv2d_forward rnd (2 * nat c_hidden) co 3 1 ?zero z
            = Inr \<lparr>shape = [b, co, h + 2 * 1 - 3 + 1, w + 2 * 1 - 3 + 1],
                   data = replicate (prod_list [b, co, h + 2 * 1 - 3 + 1, w + 2 * 1 - 3 + 1]) (Fin 0)\<rparr>"
        using rnd z(2) hw(1,2) z(3) fin
        by (intro conv2d_zero) (auto simp: list_all_iff)
      then show ?thesis
        unfolding hw(3,4) y(1) by simp
    qed
    then show ?thesis
      using z(1) fwd y(2) by blast
  qed
  show thesis
    apply (rule that [of ?net g' ?ms])
      apply (rule init)
     apply (rule nn)
    apply (erule (2) fw)
    done
qed

lemma GatedLinearNet_fresh:
  assumes "0 \<le> f"
  obtains net g' ms where
    "GatedLinearNet_init f num_layers g = Inr (net, g')"
    "nn net = Sequential (ms @ [Linear (2 * nat f) (2 * nat f)
        \<lparr>weight = replicate (2 * nat f * (2 * nat f)) (Fin 0), bias = replicate (2 * nat f) (Fin 0)\<rparr>])"
    "\<And>x b c h w. shape x = [b, c, h, w] \<Longrightarrow> c * h * w = nat f \<Longrightarrow>
        \<exists>z y. forward_all rnd ms (x\<lparr>shape := [b, c * h * w]\<rparr>) = Inr z
           \<and> GatedLinearNet_forward rnd net x = Inr y
           \<and> shape y = [b, 2 * c, h, w]
           \<and> (rnd 0 = Fin 0 \<longrightarrow> list_all is_fin (data z) \<longrightarrow>
                y = \<lparr>shape = [b, 2 * c, h, w], data = replicate (prod_list [b, 2 * c, h, w]) (Fin 0)\<rparr>)"
proof -
  let ?zero = "\<lparr>weight = replicate (2 * nat f * (2 * nat f)) (Fin 0), bias = replicate (2 * nat f) (Fin 0)\<rparr>"
  let ?final = "Linear (2 * nat f) (2 * nat f) ?zero"
  obtain first blocks g' where init:
    "GatedLinearNet_init f num_layers g =
       Inr (GatedLinearNet (Sequential (Linear (nat f) (nat f) first # blocks @
              [ConcatELU, ?final])), g')"
    and blocks: "\<forall>m\<in>set blocks. \<forall>x b. shape x = [b, nat f]
           \<longrightarrow> (\<exists>y. forward rnd m x = Inr y \<and> shape y = shape x)"
    using GatedLinearNet_init_structure [OF assms, of num_layers g rnd] by blast
  let ?ms = "Linear (nat f) (nat f) first # blocks @ [ConcatELU]"
  let ?net = "GatedLinearNet (Sequential (Linear (nat f) (nat f) first # blocks @ [ConcatELU, ?final]))"
  have nn: "nn ?net = Sequential (?ms @ [?final])" by simp
  have fw: "\<exists>z y. forward_all rnd ?ms (x\<lparr>shape := [b, c * h * w]\<rparr>) = Inr z
           \<and> GatedLinearNet_forward rnd ?net x = Inr y
           \<and> shape y = [b, 2 * c, h, w]
           \<and> (rnd 0 = Fin 0 \<longrightarrow> list_all is_fin (data z) \<longrightarrow>
                y = \<lparr>shape = [b, 2 * c, h, w], data = replicate (prod_list [b, 2 * c, h, w]) (Fin 0)\<rparr>)"
    if x: "shape x = [b, c, h, w]" and f: "c * h * w = nat f" for x b c h w
  proof -
    let ?x1 = "x\<lparr>shape := [b, c * h * w]\<rparr>"
    have fl: "torch_flatten1 x = Inr ?x1"
      using x by (simp add: torch_flatten1_def mult.assoc)
    have sx1: "shape ?x1 = [b, nat f]" using f by simp
    obtain z where z: "forward_all rnd ?ms ?x1 = Inr z" "shape z = [b, 2 * nat f]"
        "length (data z) = prod_list (shape z)"
      using linear_net_activation [OF sx1, where rnd = rnd and blocks = blocks and first = first]
        blocks by blast
    obtain y1 where y1: "linear_forward rnd (2 * nat f) (2 * nat f) ?zero z = Inr y1"
        "shape y1 = [b, 2 * nat f]" "length (data y1) = prod_list (shape y1)"
      using linear_forward_wf [OF z(2), where rnd = rnd and fout = "2 * nat f" and ps = ?zero]
      by blast
    have seq: "forward rnd (nn ?net) ?x1 = Inr y1"
      unfolding nn forward.simps forward_all_snoc [OF z(1)] by (rule y1(1))
    have "prod_list [b, 2 * c, h, w] = b * (2 * (c * h * w))"
      by (simp add: mult.assoc)
    also have "\<dots> = b * (2 * nat f)"
      by (simp only: f)
    finally have len: "prod_list [b, 2 * c, h, w] = b * (2 * nat f)" .
    have len1: "length (data y1) = b * (2 * nat f)"
      using y1(2,3) by simp
    have rs: "torch_reshape y1 [b, 2 * c, h, w] = Inr (y1\<lparr>shape := [b, 2 * c, h, w]\<rparr>)"
      unfolding torch_reshape_def len len1 by simp
    have fwd: "GatedLinearNet_forward rnd ?net x = Inr (y1\<lparr>shape := [b, 2 * c, h, w]\<rparr>)"
      unfolding GatedLinearNet_forward_def
      by (simp only: x fl seq rs list.case bindE_Inr)
    have "y1\<lparr>shape := [b, 2 * c, h, w]\<rparr>
          = \<lparr>shape = [b, 2 * c, h, w], data = replicate (prod_list [b, 2 * c, h, w]) (Fin 0)\<rparr>"
      if rnd: "rnd 0 = Fin 0" and fin: "list_all is_fin (data z)"
    proof -
      have "linear_forward rnd (2 * nat f) (2 * nat f) ?zero z
            = Inr \<lparr>shape = [b, 2 * nat f], data = replicate (prod_list [b, 2 * nat f]) (Fin 0)\<rparr>"
        using rnd z(2) z(3) fin
        by (intro linear_zero) (auto simp: list_all_iff)
      then have "y1 = \<lparr>shape = [b, 2 * nat f], data = replicate (prod_list [b, 2 * nat f]) (Fin 0)\<rparr>"
        unfolding y1(1) by simp
      moreover have "prod_list [b, 2 * nat f] = prod_list [b, 2 * c, h, w]"
        unfolding len by simp
      ultimately show ?thesis
        by (simp del: prod_list.Cons)
    qed
    moreover have "shape (y1\<lparr>shape := [b, 2 * c, h, w]\<rparr>) = [b, 2 * c, h, w]"
      by simp
    ultimately show ?thesis
      using z(1) fwd by blast
  qed
  show thesis
    apply (rule that [of ?net g' ?ms])
      apply (rule init)
     apply (rule nn)
    apply (erule (1) fw)
    done
qed
section \<open>Evaluation of the smallest networks\<close>







lemma ravel_simps4 [simp]: "ravel [a, b, c, d] [i, j, k, l] = ((i * b + j) * c + k) * d + l"
  by (simp add: ravel_def)

lemma ravel_simps2 [simp]: "ravel [a, b] [i, j] = i * b + j"
  by (simp add: ravel_def)



lemma one_plus_exp_nz [simp]: "1 + exp (x::real) \<noteq> 0"
  using exp_gt_zero [of x] by linarith

lemma elu_Fin [simp]: "elu Fin (Fin v) = Fin (if 0 < v then v else exp v - 1)"
  by (simp add: elu_def fsub_def)

lemma sigmoid_Fin [simp]: "sigmoid Fin (Fin v) = Fin (1 / (1 + exp (- v)))"
  by (simp add: sigmoid_def)

lemma elu_NaN [simp]: "elu rnd NaN = NaN"
  by (simp add: elu_def fsub_def)























section \<open>Properties of the gated networks\<close>




text \<open>
  Claim C7. With no explicit output channel count (\<open>c_out\<close> omitted, which is the call with
  the default \<open>-1\<close>, or any \<open>c_out \<le> 0\<close>, for \<open>GatedConvNet\<close>; always for
  \<open>GatedLinearNet\<close>) the output has twice the channels of the input: on an input of shape
  \<open>[b, c, h, w]\<close> a \<open>GatedConvNet\<close> with \<open>c_in = c\<close> and a \<open>GatedLinearNet\<close> with
  \<open>in_features = c * h * w\<close> return a tensor of shape \<open>[b, 2c, h, w]\<close>, whatever the
  rounding of the arithmetic.
\<close>

theorem default_output_channels:
  assumes "shape x = [b, c, h, w]" "1 \<le> c" "1 \<le> h" "1 \<le> w" "1 \<le> c_hidden" "c_out \<le> 0"
  shows "GatedConvNet_call [(''c_in'', PyInt (int c)), (''c_hidden'', PyInt c_hidden)] g
           = GatedConvNet_init (int c) c_hidden (- 1) 3 g
       \<and> (\<exists>net g' y. GatedConvNet_init (int c) c_hidden c_out num_layers g = Inr (net, g')
            \<and> GatedConvNet_forward rnd net x = Inr y \<and> shape y = [b, 2 * c, h, w])
       \<and> (\<exists>net g' y. GatedLinearNet_init (int (c * h * w)) num_layers g = Inr (net, g')
            \<and> GatedLinearNet_forward rnd net x = Inr y \<and> shape y = [b, 2 * c, h, w])"
proof (intro conjI)
  show "GatedConvNet_call [(''c_in'', PyInt (int c)), (''c_hidden'', PyInt c_hidden)] g
           = GatedConvNet_init (int c) c_hidden (- 1) 3 g"
    by (simp add: GatedConvNet_call_def bind_kwargs_def bindC_def int_arg_def)
next
  have nn: "0 \<le> int c" "0 \<le> c_hidden" using assms by simp_all
  have co: "2 * c = nat (if c_out > 0 then c_out else 2 * int c)"
    using assms(6) by simp
  have x: "shape x = [b, nat (int c), h, w]"
    using assms(1) by simp
  show "\<exists>net g' y. GatedConvNet_init (int c) c_hidden c_out num_layers g = Inr (net, g')
            \<and> GatedConvNet_forward rnd net x = Inr y \<and> shape y = [b, 2 * c, h, w]"
  proof (rule GatedConvNet_fresh [where rnd = rnd, OF nn co, of num_layers g])
    fix net g' and ms :: "module list"
    assume init: "GatedConvNet_init (int c) c_hidden c_out num_layers g = Inr (net, g')"
      and fw: "\<And>x b h w. shape x = [b, nat (int c), h, w] \<Longrightarrow> 1 \<le> h \<Longrightarrow> 1 \<le> w \<Longrightarrow>
        \<exists>z y. forward_all rnd ms x = Inr z \<and> GatedConvNet_forward rnd net x = Inr y
           \<and> shape y = [b, 2 * c, h, w]
           \<and> (rnd 0 = Fin 0 \<longrightarrow> list_all is_fin (data z) \<longrightarrow>
                y = \<lparr>shape = [b, 2 * c, h, w], data = replicate (prod_list [b, 2 * c, h, w]) (Fin 0)\<rparr>)"
    have "\<exists>z y. forward_all rnd ms x = Inr z \<and> GatedConvNet_forward rnd net x = Inr y
           \<and> shape y = [b, 2 * c, h, w]
           \<and> (rnd 0 = Fin 0 \<longrightarrow> list_all is_fin (data z) \<longrightarrow>
                y = \<lparr>shape = [b, 2 * c, h, w], data = replicate (prod_list [b, 2 * c, h, w]) (Fin 0)\<rparr>)"
      using x assms(3,4) by (rule fw)
    then obtain y where "GatedConvNet_forward rnd net x = Inr y" "shape y = [b, 2 * c, h, w]"
      by blast
    with init show ?thesis by blast
  qed
next
  have f: "0 \<le> int (c * h * w)" by (rule of_nat_0_le_iff)
  have fx: "c * h * w = nat (int (c * h * w))" by (simp only: nat_int)
  show "\<exists>net g' y. GatedLinearNet_init (int (c * h * w)) num_layers g = Inr (net, g')
            \<and> GatedLinearNet_forward rnd net x = Inr y \<and> shape y = [b, 2 * c, h, w]"
  proof (rule GatedLinearNet_fresh [where rnd = rnd, OF f, of num_layers g])
    fix net g' and ms :: "module list"
    assume init: "GatedLinearNet_init (int (c * h * w)) num_layers g = Inr (net, g')"
      and fw: "\<And>x b c' h' w'. shape x = [b, c', h', w'] \<Longrightarrow> c' * h' * w' = nat (int (c * h * w)) \<Longrightarrow>
        \<exists>z y. forward_all rnd ms (x\<lparr>shape := [b, c' * h' * w']\<rparr>) = Inr z
           \<and> GatedLinearNet_forward rnd net x = Inr y
           \<and> shape y = [b, 2 * c', h', w']
           \<and> (rnd 0 = Fin 0 \<longrightarrow> list_all is_fin (data z) \<longrightarrow>
                y = \<lparr>shape = [b, 2 * c', h', w'], data = replicate (prod_list [b, 2 * c', h', w']) (Fin 0)\<rparr>)"
    have "\<exists>z y. forward_all rnd ms (x\<lparr>shape := [b, c * h * w]\<rparr>) = Inr z
           \<and> GatedLinearNet_forward rnd net x = Inr y
           \<and> shape y = [b, 2 * c, h, w]
           \<and> (rnd 0 = Fin 0 \<longrightarrow> list_all is_fin (data z) \<longrightarrow>
                y = \<lparr>shape = [b, 2 * c, h, w], data = replicate (prod_list [b, 2 * c, h, w]) (Fin 0)\<rparr>)"
      using assms(1) fx by (rule fw)
    then obtain y where "GatedLinearNet_forward rnd net x = Inr y" "shape y = [b, 2 * c, h, w]"
      by blast
    with init show ?thesis by blast
  qed
qed

text \<open>The hypotheses of C7 hold for a batch of shape \<open>[4, 3, 8, 8]\<close>.\<close>

theorem default_output_channels_witness:
  "GatedConvNet_call [(''c_in'', PyInt (int 3)), (''c_hidden'', PyInt 32)] (\<lambda>_. 1)
           = GatedConvNet_init (int 3) 32 (- 1) 3 (\<lambda>_. 1)
       \<and> (\<exists>net g' y. GatedConvNet_init (int 3) 32 (- 1) 3 (\<lambda>_. 1) = Inr (net, g')
            \<and> GatedConvNet_forward Fin net \<lparr>shape = [4, 3, 8, 8], data = replicate 768 (Fin 1)\<rparr> = Inr y
            \<and> shape y = [4, 2 * 3, 8, 8])
       \<and> (\<exists>net g' y. GatedLinearNet_init (int (3 * 8 * 8)) 3 (\<lambda>_. 1) = Inr (net, g')
            \<and> GatedLinearNet_forward Fin net \<lparr>shape = [4, 3, 8, 8], data = replicate 768 (Fin 1)\<rparr> = Inr y
            \<and> shape y = [4, 2 * 3, 8, 8])"
  by (rule default_output_channels) simp_all

text \<open>
  Claim C8, as amended. For every 4-D input \<open>x\<close> of shape \<open>[b, c, h, w]\<close>, the output of
  \<open>GatedLinearNet.forward\<close> (for \<open>in_features = c * h * w\<close>) is reshaped after the final
  projection to the 4-D shape \<open>[b, 2c, h, w]\<close>: the batch and spatial sizes of the input,
  and twice its channels.
\<close>

theorem linear_net_output_shape:
  assumes "shape x = [b, c, h, w]"
  shows "\<exists>net g' y. GatedLinearNet_init (int (c * h * w)) num_layers g = Inr (net, g')
            \<and> GatedLinearNet_forward rnd net x = Inr y
            \<and> shape y = [b, 2 * c, h, w] \<and> length (shape y) = 4"
proof -
  have f: "0 \<le> int (c * h * w)" by (rule of_nat_0_le_iff)
  have fx: "c * h * w = nat (int (c * h * w))" by (simp only: nat_int)
  show ?thesis
  proof (rule GatedLinearNet_fresh [where rnd = rnd, OF f, of num_layers g])
    fix net g' and ms :: "module list"
    assume init: "GatedLinearNet_init (int (c * h * w)) num_layers g = Inr (net, g')"
      and fw: "\<And>x b c' h' w'. shape x = [b, c', h', w'] \<Longrightarrow> c' * h' * w' = nat (int (c * h * w)) \<Longrightarrow>
        \<exists>z y. forward_all rnd ms (x\<lparr>shape := [b, c' * h' * w']\<rparr>) = Inr z
           \<and> GatedLinearNet_forward rnd net x = Inr y
           \<and> shape y = [b, 2 * c', h', w']
           \<and> (rnd 0 = Fin 0 \<longrightarrow> list_all is_fin (data z) \<longrightarrow>
                y = \<lparr>shape = [b, 2 * c', h', w'], data = replicate (prod_list [b, 2 * c', h', w']) (Fin 0)\<rparr>)"
    have "\<exists>z y. forward_all rnd ms (x\<lparr>shape := [b, c * h * w]\<rparr>) = Inr z
           \<and> GatedLinearNet_forward rnd net x = Inr y
           \<and> shape y = [b, 2 * c, h, w]
           \<and> (rnd 0 = Fin 0 \<longrightarrow> list_all is_fin (data z) \<longrightarrow>
                y = \<lparr>shape = [b, 2 * c, h, w], data = replicate (prod_list [b, 2 * c, h, w]) (Fin 0)\<rparr>)"
      using assms fx by (rule fw)
    then obtain y where y: "GatedLinearNet_forward rnd net x = Inr y" "shape y = [b, 2 * c, h, w]"
      by blast
    then have "length (shape y) = 4" by simp
    with init y show ?thesis by blast
  qed
qed

text \<open>The hypothesis of C8 holds for a batch of shape \<open>[4, 1, 28, 28]\<close>.\<close>

theorem linear_net_output_shape_witness:
  "\<exists>net g' y. GatedLinearNet_init (int (1 * 28 * 28)) 3 (\<lambda>_. 1) = Inr (net, g')
            \<and> GatedLinearNet_forward Fin net \<lparr>shape = [4, 1, 28, 28], data = replicate 3136 (Fin 1)\<rparr> = Inr y
            \<and> shape y = [4, 2 * 1, 28, 28] \<and> length (shape y) = 4"
  by (rule linear_net_output_shape) simp

text \<open>
  Claim C8 as stated fails: on an input of shape \<open>[1, 1, 1, 1]\<close> a fresh
  \<open>GatedLinearNet(in_features=1)\<close> returns a tensor of shape \<open>[1, 2, 1, 1]\<close>, which is not
  the shape of the input.
\<close>

theorem linear_net_output_shape_counterexample:
  "\<not> isl (GatedLinearNet_init 1 3 (\<lambda>_. 1))
   \<and> \<not> isl (GatedLinearNet_forward Fin (fst (projr (GatedLinearNet_init 1 3 (\<lambda>_. 1))))
              \<lparr>shape = [1, 1, 1, 1], data = [Fin 1]\<rparr>)
   \<and> shape (projr (GatedLinearNet_forward Fin (fst (projr (GatedLinearNet_init 1 3 (\<lambda>_. 1))))
              \<lparr>shape = [1, 1, 1, 1], data = [Fin 1]\<rparr>)) = [1, 2, 1, 1]
   \<and> shape (projr (GatedLinearNet_forward Fin (fst (projr (GatedLinearNet_init 1 3 (\<lambda>_. 1))))
              \<lparr>shape = [1, 1, 1, 1], data = [Fin 1]\<rparr>)) \<noteq> shape \<lparr>shape = [1, 1, 1, 1], data = [Fin 1]\<rparr>"
proof (rule GatedLinearNet_fresh [where rnd = Fin, of 1 3 "\<lambda>_. 1"])
  show "(0::int) \<le> 1" by simp
next
  fix net g' and ms :: "module list"
  let ?x = "\<lparr>shape = [1, 1, 1, 1], data = [Fin 1]\<rparr>"
  assume init: "GatedLinearNet_init 1 3 (\<lambda>_. 1) = Inr (net, g')"
    and fw: "\<And>x b c h w. shape x = [b, c, h, w] \<Longrightarrow> c * h * w = nat 1 \<Longrightarrow>
        \<exists>z y. forward_all Fin ms (x\<lparr>shape := [b, c * h * w]\<rparr>) = Inr z
           \<and> GatedLinearNet_forward Fin net x = Inr y
           \<and> shape y = [b, 2 * c, h, w]
           \<and> (Fin 0 = Fin 0 \<longrightarrow> list_all is_fin (data z) \<longrightarrow>
                y = \<lparr>shape = [b, 2 * c, h, w], data = replicate (prod_list [b, 2 * c, h, w]) (Fin 0)\<rparr>)"
  have "\<exists>z y. forward_all Fin ms (?x\<lparr>shape := [1, 1 * 1 * 1]\<rparr>) = Inr z
           \<and> GatedLinearNet_forward Fin net ?x = Inr y
           \<and> shape y = [1, 2 * 1, 1, 1]
           \<and> (Fin 0 = Fin 0 \<longrightarrow> list_all is_fin (data z) \<longrightarrow>
                y = \<lparr>shape = [1, 2 * 1, 1, 1], data = replicate (prod_list [1, 2 * 1, 1, 1]) (Fin 0)\<rparr>)"
    by (rule fw) simp_all
  then obtain y where "GatedLinearNet_forward Fin net ?x = Inr y" "shape y = [1, 2 * 1, 1, 1]"
    by blast
  then show ?thesis
    by (simp add: init)
qed
section \<open>Properties of the flow recipes\<close>

lemma mapC_Inl_first: "f x g = Inl e \<Longrightarrow> mapC f (x # xs) g = Inl e"
  by (simp add: bindC_def)

lemma py_range_pos: "0 < n \<Longrightarrow> py_range n = 0 # [1..<nat n]"
  by (simp add: py_range_def upt_conv_Cons)

lemma GatedConvNet_call_partial_conv_main:
  "GatedConvNet_call [(''c_in'', PyInt a), (''c_hidden'', PyInt b), (''partial_conv'', PyBool p)] g
   = Inl (TypeError ''__init__() got an unexpected keyword argument partial_conv'')"
  by (simp add: GatedConvNet_call_def bind_kwargs_def bindC_def)

lemma GatedConvNet_call_partial_conv_vardeq:
  "GatedConvNet_call [(''c_in'', PyInt a), (''c_out'', PyInt b), (''c_hidden'', PyInt d),
     (''partial_conv'', PyBool p)] g
   = Inl (TypeError ''__init__() got an unexpected keyword argument partial_conv'')"
  by (simp add: GatedConvNet_call_def bind_kwargs_def bindC_def)

lemma get_flow_layers_raises:
  assumes "vardeq \<or> (\<not> linear' \<and> 0 < num_layers)"
  shows "get_flow_layers size' c vardeq num_layers linear' partial_conv g
         = Inl (TypeError ''__init__() got an unexpected keyword argument partial_conv'')"
proof (cases vardeq)
  case True
  have "mapC (\<lambda>i.
           bindC (GatedConvNet_call [(''c_in'', PyInt (2 * c)), (''c_out'', PyInt (2 * c)),
                    (''c_hidden'', PyInt 16), (''partial_conv'', PyBool partial_conv)]) (\<lambda>network.
           bindC (liftC (create_checkerboard_mask size' size' (i mod 2 = 1))) (\<lambda>mask.
             returnC (CouplingLayer network mask (1 * c)))))
         (py_range 4) g
        = Inl (TypeError ''__init__() got an unexpected keyword argument partial_conv'')"
    unfolding py_range_pos [of 4, simplified]
    by (rule mapC_Inl_first) (simp add: bindC_def GatedConvNet_call_partial_conv_vardeq)
  then show ?thesis
    using True by (simp add: get_flow_layers_def bindC_def)
next
  case False
  then have l: "\<not> linear'" "0 < num_layers" using assms by auto
  have "mapC (\<lambda>i.
              if \<not> linear'
              then bindC (GatedConvNet_call [(''c_in'', PyInt (1 * c)), (''c_hidden'', PyInt 32),
                            (''partial_conv'', PyBool partial_conv)]) (\<lambda>network.
                   bindC (liftC (create_checkerboard_mask size' size' (i mod 2 = 1))) (\<lambda>mask.
                     returnC (CouplingLayer network mask (1 * c))))
              else let num_features = c * size' * size'
                   in bindC (GatedLinearNet_call [(''in_features'', PyInt num_features)]) (\<lambda>network.
                      bindC (liftC (create_checkerboard_mask size' size' (i mod 2 = 1))) (\<lambda>mask.
                        returnC (CouplingLayer network mask (1 * c)))))
            (py_range num_layers) g'
        = Inl (TypeError ''__init__() got an unexpected keyword argument partial_conv'')" for g'
    unfolding py_range_pos [OF l(2)]
    by (rule mapC_Inl_first) (simp add: l bindC_def GatedConvNet_call_partial_conv_main)
  then show ?thesis
    using False by (simp add: get_flow_layers_def bindC_def)
qed

lemma bindC_eq_Inr:
  "bindC m f g = Inr r \<longleftrightarrow> (\<exists>x g'. m g = Inr (x, g') \<and> f x g' = Inr r)"
  by (auto simp: bindC_def split: sum.splits)

lemma GatedConvNet_call_hidden:
  "GatedConvNet_call [(''c_in'', PyInt a), (''c_hidden'', PyInt k)] g = GatedConvNet_init a k (- 1) 3 g"
  by (simp add: GatedConvNet_call_def bind_kwargs_def bindC_def int_arg_def)

lemma GatedConvNet_call_out:
  "GatedConvNet_call [(''c_in'', PyInt a), (''c_out'', PyInt b), (''c_hidden'', PyInt k)] g
   = GatedConvNet_init a k b 3 g"
  by (simp add: GatedConvNet_call_def bind_kwargs_def bindC_def int_arg_def)

lemma GatedConvNet_init_ok:
  assumes "0 \<le> a" "0 \<le> k"
  shows "\<exists>net g'. GatedConvNet_init a k b n g = Inr (net, g')"
  using GatedConvNet_init_structure [OF assms refl, of b n g] by blast

lemma checkerboard_ok:
  assumes "0 \<le> h"
  shows "\<exists>m. create_checkerboard_mask h h iv = Inr m"
  using assms checkerboard_closed [of h h] checkerboard_invert [of h h]
  by (cases iv) auto

lemma channel_ok:
  assumes "0 \<le> n"
  shows "\<exists>m. create_channel_mask n iv = Inr m"
  using assms channel_closed [of n] channel_invert [of n]
  by (cases iv) auto

lemma mapC_ok:
  assumes "\<And>i g. \<exists>y g'. f i g = Inr (y, g')"
  shows "\<exists>ys g'. mapC f xs g = Inr (ys, g')"
  using mapC_all [of f "\<lambda>_. True" xs g] assms by auto

lemma coupling_checkerboard_ok:
  assumes "\<exists>net g'. mk g = Inr (net, g')" "0 \<le> h"
  shows "\<exists>y g'. bindC mk (\<lambda>network.
              bindC (liftC (create_checkerboard_mask h h iv)) (\<lambda>mask.
                returnC (CouplingLayer network mask n))) g = Inr (y, g')"
proof -
  obtain net g' where "mk g = Inr (net, g')" using assms(1) by blast
  moreover obtain m where "create_checkerboard_mask h h iv = Inr m"
    using checkerboard_ok [OF assms(2)] by blast
  ultimately show ?thesis by (simp add: bindC_def)
qed

lemma coupling_channel_ok:
  assumes "\<exists>net g'. mk g = Inr (net, g')" "0 \<le> k"
  shows "\<exists>y g'. bindC mk (\<lambda>network.
              bindC (liftC (create_channel_mask k iv)) (\<lambda>mask.
                returnC (CouplingLayer network mask n))) g = Inr (y, g')"
proof -
  obtain net g' where "mk g = Inr (net, g')" using assms(1) by blast
  moreover obtain m where "create_channel_mask k iv = Inr m"
    using channel_ok [OF assms(2)] by blast
  ultimately show ?thesis by (simp add: bindC_def)
qed

lemma create_multiscale_flow_ok:
  assumes "0 \<le> config_c config" "0 \<le> config_size config"
  shows "\<exists>flow g'. create_multiscale_flow config g
           = Inr ((flow, if squeeze_twice config then torch_tensor [1, 8, 0.25, 0.25]
                         else torch_tensor [1, 2, 0.5, 0.5]), g')"
proof -
  let ?c = "config_c config" and ?s = "config_size config"
  let ?A = "\<lambda>i::nat.
              bindC (GatedConvNet_call [(''c_in'', PyInt (2 * ?c)),
                       (''c_out'', PyInt (2 * ?c)), (''c_hidden'', PyInt 16)]) (\<lambda>network.
              bindC (liftC (create_checkerboard_mask ?s ?s (i mod 2 = 1))) (\<lambda>mask.
                returnC (CouplingLayer network mask (1 * ?c))))"
  let ?B = "\<lambda>i::nat.
              bindC (GatedConvNet_call [(''c_in'', PyInt (1 * ?c)), (''c_hidden'', PyInt 32)]) (\<lambda>network.
              bindC (liftC (create_checkerboard_mask ?s ?s (i mod 2 = 1))) (\<lambda>mask.
                returnC (CouplingLayer network mask (1 * ?c))))"
  let ?C = "\<lambda>i::nat.
              bindC (GatedConvNet_call [(''c_in'', PyInt (4 * ?c)), (''c_hidden'', PyInt 48)]) (\<lambda>network.
              bindC (liftC (create_channel_mask (4 * ?c) (i mod 2 = 1))) (\<lambda>mask.
                returnC (CouplingLayer network mask (4 * ?c))))"
  let ?D = "\<lambda>i::nat.
                   bindC (GatedConvNet_call [(''c_in'', PyInt (8 * ?c)), (''c_hidden'', PyInt 64)]) (\<lambda>network.
                   bindC (liftC (create_channel_mask (8 * ?c) (i mod 2 = 1))) (\<lambda>mask.
                     returnC (CouplingLayer network mask (8 * ?c))))"
  let ?E = "\<lambda>i::nat.
                   bindC (GatedConvNet_call [(''c_in'', PyInt (2 * ?c)), (''c_hidden'', PyInt 64)]) (\<lambda>network.
                   bindC (liftC (create_channel_mask (2 * ?c) (i mod 2 = 1))) (\<lambda>mask.
                     returnC (CouplingLayer network mask (2 * ?c))))"
  have call_out: "\<exists>net g'. GatedConvNet_call [(''c_in'', PyInt a), (''c_out'', PyInt b), (''c_hidden'', PyInt k)] g
            = Inr (net, g')" if "0 \<le> a" "0 \<le> k" for a b k g
    unfolding GatedConvNet_call_out using that by (rule GatedConvNet_init_ok)
  have call_hid: "\<exists>net g'. GatedConvNet_call [(''c_in'', PyInt a), (''c_hidden'', PyInt k)] g
            = Inr (net, g')" if "0 \<le> a" "0 \<le> k" for a k g
    unfolding GatedConvNet_call_hidden using that by (rule GatedConvNet_init_ok)
  have A: "\<exists>y g'. ?A i g = Inr (y, g')" for i g
    using assms by (intro coupling_checkerboard_ok call_out) simp_all
  have B: "\<exists>y g'. ?B i g = Inr (y, g')" for i g
    using assms by (intro coupling_checkerboard_ok call_hid) simp_all
  have C: "\<exists>y g'. ?C i g = Inr (y, g')" for i g
    using assms by (intro coupling_channel_ok call_hid) simp_all
  have D: "\<exists>y g'. ?D i g = Inr (y, g')" for i g
    using assms by (intro coupling_channel_ok call_hid) simp_all
  have E: "\<exists>y g'. ?E i g = Inr (y, g')" for i g
    using assms by (intro coupling_channel_ok call_hid) simp_all
  obtain va g1 where va: "mapC ?A (py_range 4) g = Inr (va, g1)"
    using mapC_ok [of ?A "py_range 4" g, OF A] by blast
  obtain vb g2 where vb: "mapC ?B (py_range 2) g1 = Inr (vb, g2)"
    using mapC_ok [of ?B "py_range 2" g1, OF B] by blast
  obtain vc g3 where vc: "mapC ?C (py_range 2) g2 = Inr (vc, g3)"
    using mapC_ok [of ?C "py_range 2" g2, OF C] by blast
  obtain vd g4 where vd: "mapC ?D (py_range 4) g3 = Inr (vd, g4)"
    using mapC_ok [of ?D "py_range 4" g3, OF D] by blast
  obtain ve g5 where ve: "mapC ?E (py_range 4) g3 = Inr (ve, g5)"
    using mapC_ok [of ?E "py_range 4" g3, OF E] by blast
  show ?thesis
  proof (cases "squeeze_twice config")
    case True
    have "create_multiscale_flow config g
          = Inr ((ImageFlow (([VariationalDequantization va] @ vb @ [SqueezeFlow] @ vc @ [SplitFlow config])
                   @ [SqueezeFlow] @ vd) config, torch_tensor [1, 8, 0.25, 0.25]), g4)"
      unfolding create_multiscale_flow_def
      by (simp only: bindC_def va vb vc vd True sum.case prod.case Let_def returnC_def if_True)
    then show ?thesis
      using True by (simp only: if_True) blast
  next
    case False
    have "create_multiscale_flow config g
          = Inr ((ImageFlow (([VariationalDequantization va] @ vb @ [SqueezeFlow] @ vc @ [SplitFlow config])
                   @ ve) config, torch_tensor [1, 2, 0.5, 0.5]), g5)"
      unfolding create_multiscale_flow_def
      by (simp only: bindC_def va vb vc ve False sum.case prod.case Let_def returnC_def if_False)
    then show ?thesis
      using False by (simp only: if_False) blast
  qed
qed

lemma create_multiscale_flow_factor:
  assumes "create_multiscale_flow config g = Inr ((flow, ssf), g')"
  shows "ssf = (if squeeze_twice config then torch_tensor [1, 8, 0.25, 0.25]
                else torch_tensor [1, 2, 0.5, 0.5])"
  using assms unfolding create_multiscale_flow_def Let_def
  by (auto simp: bindC_eq_Inr split: if_splits)


lemma not_ident_hash: "\<not> is_ident_char CHR ''#''"
  by (simp add: is_ident_char_def is_ident_start_def)

lemma ident_not_blank: "is_ident_char ch \<Longrightarrow> \<not> is_blank ch"
  by (auto simp: is_ident_char_def is_ident_start_def is_blank_def Let_def)

lemma ident_plain: "is_ident_char ch \<Longrightarrow> is_plain ch"
  by (auto simp: is_ident_char_def is_ident_start_def is_plain_def Let_def)

lemma strip_comment_ident: "list_all is_ident_char s \<Longrightarrow> strip_comment s = s"
  unfolding strip_comment_def
  by (rule takeWhile_eq_all_conv [THEN iffD2]) (auto simp: list_all_iff not_ident_hash)

lemma py_strip_ident:
  assumes "list_all is_ident_char s"
  shows "py_strip s = s"
proof (cases s)
  case Nil
  then show ?thesis by (simp add: py_strip_def)
next
  case (Cons a as)
  have nb: "\<And>ch. ch \<in> set s \<Longrightarrow> \<not> is_blank ch"
    using assms by (auto simp: list_all_iff ident_not_blank)
  have "rev s \<noteq> []"
    using Cons by simp
  moreover from this have "hd (rev s) \<in> set (rev s)"
    by (rule hd_in_set)
  ultimately have "rev s \<noteq> []" "hd (rev s) \<in> set s"
    by simp_all
  then have "dropWhile is_blank (rev s) = rev s"
    using nb by (metis dropWhile_eq_self_iff)
  moreover have "dropWhile is_blank s = s"
    using Cons nb by (metis dropWhile_eq_self_iff list.sel(1) list.set_intros(1))
  ultimately show ?thesis by (simp add: py_strip_def)
qed

lemma create_name_ident:
  assumes "list_all is_ident_char m"
  shows "is_identifier (''create_'' @ m @ ''_flow'')"
proof -
  have "list_all is_ident_char ''create_''" "list_all is_ident_char ''_flow''"
    by (simp_all add: is_ident_char_def is_ident_start_def)
  then have "list_all is_ident_char (''create_'' @ m @ ''_flow'')"
    using assms by simp
  moreover have "is_ident_start (hd (''create_'' @ m @ ''_flow''))"
    by (simp add: is_ident_start_def)
  moreover have "''create_'' @ m @ ''_flow'' \<notin> set py_keywords"
    by (simp add: py_keywords_def)
  ultimately show ?thesis
    by (simp add: is_identifier_def)
qed

lemma py_eval_create_name:
  assumes "list_all is_ident_char m"
  shows "py_eval other (''create_'' @ m @ ''_flow'') = lookup_name (''create_'' @ m @ ''_flow'')"
proof -
  have "list_all is_ident_char ''create_''" "list_all is_ident_char ''_flow''"
    by (simp_all add: is_ident_char_def is_ident_start_def)
  then have all: "list_all is_ident_char (''create_'' @ m @ ''_flow'')"
    using assms by simp
  have "list_all is_plain (''create_'' @ m @ ''_flow'')"
    using all by (auto simp: list_all_iff ident_plain)
  then show ?thesis
    unfolding py_eval_def strip_comment_ident [OF all] py_strip_ident [OF all] Let_def
    using create_name_ident [OF assms] by (simp only: if_True simp_thms)
qed

lemma create_name_inj: "''create_'' @ m @ ''_flow'' = ''create_'' @ k @ ''_flow'' \<longleftrightarrow> m = k"
  by simp

lemma create_name_not_create_flow: "''create_'' @ m @ ''_flow'' \<noteq> ''create_flow''"
proof
  assume "''create_'' @ m @ ''_flow'' = ''create_flow''"
  then have "length (''create_'' @ m @ ''_flow'') = length ''create_flow''"
    by (rule arg_cong)
  then show False by simp
qed

lemma create_name_not_mask:
  "''create_'' @ m @ ''_flow'' \<noteq> ''create_checkerboard_mask''"
  "''create_'' @ m @ ''_flow'' \<noteq> ''create_channel_mask''"
proof -
  have l: "last (''create_'' @ m @ ''_flow'') = CHR ''w''" by simp
  show "''create_'' @ m @ ''_flow'' \<noteq> ''create_checkerboard_mask''"
  proof
    assume "''create_'' @ m @ ''_flow'' = ''create_checkerboard_mask''"
    then have "last (''create_'' @ m @ ''_flow'') = last ''create_checkerboard_mask''"
      by (rule arg_cong)
    then show False unfolding l by simp
  qed
  show "''create_'' @ m @ ''_flow'' \<noteq> ''create_channel_mask''"
  proof
    assume "''create_'' @ m @ ''_flow'' = ''create_channel_mask''"
    then have "last (''create_'' @ m @ ''_flow'') = last ''create_channel_mask''"
      by (rule arg_cong)
    then show False unfolding l by simp
  qed
qed

lemma known_names:
  "map (\<lambda>m. ''create_'' @ m @ ''_flow'') known_models
   = [''create_'' @ ''simple'' @ ''_flow'', ''create_'' @ ''vardeq'' @ ''_flow'',
      ''create_'' @ ''long'' @ ''_flow'', ''create_'' @ ''linear'' @ ''_flow'',
      ''create_'' @ ''partial_conv'' @ ''_flow'', ''create_'' @ ''multiscale'' @ ''_flow'']"
  by (simp add: known_models_def)

lemma lookup_unknown:
  assumes "m \<notin> set known_models"
  shows "lookup_name (''create_'' @ m @ ''_flow'')
         = Inl (NameError (''name '' @ [CHR 0x27] @ ''create_'' @ m @ ''_flow'' @ [CHR 0x27] @ '' is not defined''))"
proof -
  have "''create_'' @ m @ ''_flow'' \<notin> set (map (\<lambda>m. ''create_'' @ m @ ''_flow'') known_models)"
    using assms unfolding known_names
    by (simp only: set_simps insert_iff empty_iff create_name_inj known_models_def) simp
  then show ?thesis
    unfolding lookup_name_def
    using create_name_not_create_flow [of m] create_name_not_mask [of m]
    by (simp del: append.simps)
qed


lemma py_eval_simple:
  "py_eval other ''create_simple_flow'' = Inr (Function ''create_simple_flow'')"
proof -
  have "list_all is_ident_char ''simple''"
    by (simp add: is_ident_char_def is_ident_start_def)
  from py_eval_create_name [OF this, of other] show ?thesis
    by (simp add: lookup_name_def known_models_def)
qed

lemma py_eval_multiscale_comment:
  "py_eval other ''create_multiscale_flow#_flow'' = Inr (Function ''create_multiscale_flow'')"
proof -
  have sc: "strip_comment ''create_multiscale_flow#_flow'' = ''create_multiscale_flow''"
    by (simp add: strip_comment_def)
  have all: "list_all is_ident_char ''create_multiscale_flow''"
    by (simp add: is_ident_char_def is_ident_start_def)
  have "list_all is_ident_char ''multiscale''"
    by (simp add: is_ident_char_def is_ident_start_def)
  from create_name_ident [OF this] have id: "is_identifier ''create_multiscale_flow''"
    by simp
  have pl: "list_all is_plain ''create_multiscale_flow#_flow''"
    by (simp add: is_plain_def)
  show ?thesis
    unfolding py_eval_def sc py_strip_ident [OF all] Let_def
    using id pl by (simp add: lookup_name_def known_models_def)
qed

text \<open>
  Claim C1 fails on the code. \<open>create_simple_flow\<close> raises \<open>TypeError\<close> for every config,
  the one with \<open>size = 28\<close> and \<open>c = 1\<close> included, directly and through \<open>create_flow\<close> with the
  model name \<open>simple\<close>: \<open>get_flow_layers\<close> passes the keyword \<open>partial_conv\<close> to
  \<open>GatedConvNet\<close>, whose \<open>__init__\<close> has no such parameter. No flow is constructed, so there
  is no log-likelihood to evaluate.
\<close>

theorem create_simple_flow_raises:
  "create_simple_flow config g
     = Inl (TypeError ''__init__() got an unexpected keyword argument partial_conv'')
   \<and> create_flow (Suc depth) other (config\<lparr>config_model_name := ''simple''\<rparr>) g
     = Inl (TypeError ''__init__() got an unexpected keyword argument partial_conv'')"
proof -
  have a: "create_simple_flow cfg g
     = Inl (TypeError ''__init__() got an unexpected keyword argument partial_conv'')" for cfg
    by (simp add: create_simple_flow_def bindC_def get_flow_layers_raises)
  have "create_flow (Suc depth) other (config\<lparr>config_model_name := ''simple''\<rparr>) g
     = Inl (TypeError ''__init__() got an unexpected keyword argument partial_conv'')"
    using py_eval_simple [of other]
    by (simp add: bindC_def a except_NameError_def)
  with a show ?thesis by simp
qed

text \<open>
  Claim C2. In \<open>create_multiscale_flow\<close>, \<open>squeeze_twice\<close> is true exactly when
  \<open>size % 4 == 0\<close> and \<open>size >= 20\<close>; the builder completes for every size and channel
  count from 1 on, and whenever it returns, \<open>sample_shape_factor\<close> is the tensor
  \<open>[1, 8, 0.25, 0.25]\<close> if \<open>squeeze_twice\<close> is true and \<open>[1, 2, 0.5, 0.5]\<close> if it is false.
\<close>

theorem multiscale_sample_shape_factor:
  "(squeeze_twice config \<longleftrightarrow> config_size config mod 4 = 0 \<and> config_size config \<ge> 20)
   \<and> (1 \<le> config_c config \<and> 1 \<le> config_size config \<longrightarrow>
        (\<exists>flow g'. create_multiscale_flow config g
           = Inr ((flow, if squeeze_twice config then torch_tensor [1, 8, 0.25, 0.25]
                         else torch_tensor [1, 2, 0.5, 0.5]), g')))
   \<and> (\<forall>flow ssf g'. create_multiscale_flow config g = Inr ((flow, ssf), g') \<longrightarrow>
        ssf = (if squeeze_twice config then torch_tensor [1, 8, 0.25, 0.25]
               else torch_tensor [1, 2, 0.5, 0.5]))"
  using create_multiscale_flow_ok [of config g] create_multiscale_flow_factor [of config g]
  by (simp add: squeeze_twice_def)

text \<open>
  C2 at \<open>size = 28\<close>, \<open>c = 1\<close>: \<open>squeeze_twice\<close> is true, the builder returns, and the factor
  is \<open>[1, 8, 0.25, 0.25]\<close>; at \<open>size = 10\<close> the factor is \<open>[1, 2, 0.5, 0.5]\<close>.
\<close>

theorem multiscale_sample_shape_factor_witness:
  "squeeze_twice \<lparr>config_size = 28, config_c = 1, config_model_name = ''multiscale'', config_device = ''cpu''\<rparr>
   \<and> \<not> isl (create_multiscale_flow
        \<lparr>config_size = 28, config_c = 1, config_model_name = ''multiscale'', config_device = ''cpu''\<rparr> (\<lambda>_. 1))
   \<and> snd (fst (projr (create_multiscale_flow
        \<lparr>config_size = 28, config_c = 1, config_model_name = ''multiscale'', config_device = ''cpu''\<rparr> (\<lambda>_. 1))))
       = torch_tensor [1, 8, 0.25, 0.25]
   \<and> \<not> squeeze_twice \<lparr>config_size = 10, config_c = 1, config_model_name = ''multiscale'', config_device = ''cpu''\<rparr>
   \<and> \<not> isl (create_multiscale_flow
        \<lparr>config_size = 10, config_c = 1, config_model_name = ''multiscale'', config_device = ''cpu''\<rparr> (\<lambda>_. 1))
   \<and> snd (fst (projr (create_multiscale_flow
        \<lparr>config_size = 10, config_c = 1, config_model_name = ''multiscale'', config_device = ''cpu''\<rparr> (\<lambda>_. 1))))
       = torch_tensor [1, 2, 0.5, 0.5]"
proof -
  let ?a = "\<lparr>config_size = 28, config_c = 1, config_model_name = ''multiscale'', config_device = ''cpu''\<rparr>"
  let ?b = "\<lparr>config_size = 10, config_c = 1, config_model_name = ''multiscale'', config_device = ''cpu''\<rparr>"
  have sa: "squeeze_twice ?a" and sb: "\<not> squeeze_twice ?b"
    using multiscale_sample_shape_factor [of ?a "\<lambda>_. 1"] multiscale_sample_shape_factor [of ?b "\<lambda>_. 1"]
    by simp_all
  obtain fa ga where a: "create_multiscale_flow ?a (\<lambda>_. 1) = Inr ((fa, torch_tensor [1, 8, 0.25, 0.25]), ga)"
    using multiscale_sample_shape_factor [of ?a "\<lambda>_. 1"] sa by auto
  obtain fb gb where b: "create_multiscale_flow ?b (\<lambda>_. 1) = Inr ((fb, torch_tensor [1, 2, 0.5, 0.5]), gb)"
    using multiscale_sample_shape_factor [of ?b "\<lambda>_. 1"] sb by auto
  show ?thesis
    using sa sb by (simp add: a b)
qed

text \<open>
  Claim C9, as amended. For every config whose \<open>model_name\<close> consists of identifier
  characters (letters, digits, underscores) and is not one of the known recipe names,
  \<open>create_flow\<close> raises a \<open>NameError\<close> at once, and no flow model is constructed or
  returned.
\<close>

theorem create_flow_unknown_identifier:
  assumes "list_all is_ident_char (config_model_name config)"
    and "config_model_name config \<notin> set known_models"
  shows "\<exists>msg. create_flow (Suc depth) other config g = Inl (NameError msg)"
  using py_eval_create_name [OF assms(1), of other] lookup_unknown [OF assms(2)]
  by (simp add: bindC_def)

text \<open>The hypotheses of C9 hold for the model name \<open>foo\<close>.\<close>

theorem create_flow_unknown_identifier_witness:
  "\<exists>msg. create_flow (Suc 0) (\<lambda>_. Inl (RuntimeError ''not evaluated''))
     \<lparr>config_size = 28, config_c = 1, config_model_name = ''foo'', config_device = ''cpu''\<rparr> (\<lambda>_. 1)
   = Inl (NameError msg)"
  by (rule create_flow_unknown_identifier)
    (simp_all add: known_models_def is_ident_char_def is_ident_start_def)

text \<open>
  Claim C9 as stated fails: \<open>multiscale_flow#\<close> is not one of the known recipe names, yet
  \<open>eval\<close> reads \<open>create_multiscale_flow#_flow\<close> as the name \<open>create_multiscale_flow\<close> followed
  by a comment, and \<open>create_flow\<close> builds and returns the multiscale flow.
\<close>

theorem create_flow_unknown_identifier_counterexample:
  "''multiscale_flow#'' \<notin> set known_models
   \<and> \<not> isl (create_flow (Suc 0) (\<lambda>_. Inl (RuntimeError ''not evaluated''))
        \<lparr>config_size = 28, config_c = 1, config_model_name = ''multiscale_flow#'', config_device = ''cpu''\<rparr>
        (\<lambda>_. 1))
   \<and> snd (fst (projr (create_flow (Suc 0) (\<lambda>_. Inl (RuntimeError ''not evaluated''))
        \<lparr>config_size = 28, config_c = 1, config_model_name = ''multiscale_flow#'', config_device = ''cpu''\<rparr>
        (\<lambda>_. 1)))) = torch_tensor [1, 8, 0.25, 0.25]"
proof -
  let ?cfg = "\<lparr>config_size = 28, config_c = 1, config_model_name = ''multiscale_flow#'', config_device = ''cpu''\<rparr>"
  have sq: "squeeze_twice ?cfg" by (simp add: squeeze_twice_def)
  obtain flow g' where
    m: "create_multiscale_flow ?cfg (\<lambda>_. 1) = Inr ((flow, torch_tensor [1, 8, 0.25, 0.25]), g')"
    using create_multiscale_flow_ok [of ?cfg "\<lambda>_. 1"] sq by auto
  have "create_flow (Suc 0) (\<lambda>_. Inl (RuntimeError ''not evaluated'')) ?cfg (\<lambda>_. 1)
        = Inr ((to_device flow ''cpu'', torch_tensor [1, 8, 0.25, 0.25]), g')"
    using py_eval_multiscale_comment [of "\<lambda>_. Inl (RuntimeError ''not evaluated'')"]
    by (simp add: bindC_def m except_NameError_def)
  then show ?thesis
    by (simp add: known_models_def)
qed

text \<open>
  Each of the five builders other than \<open>create_multiscale_flow\<close> raises \<open>TypeError\<close> for
  every config: \<open>get_flow_layers\<close> passes the keyword \<open>partial_conv\<close> to \<open>GatedConvNet\<close>.
\<close>

lemma non_multiscale_recipes_raise:
  "create_simple_flow config g
     = Inl (TypeError ''__init__() got an unexpected keyword argument partial_conv'')
   \<and> create_vardeq_flow config g
     = Inl (TypeError ''__init__() got an unexpected keyword argument partial_conv'')
   \<and> create_long_flow config g
     = Inl (TypeError ''__init__() got an unexpected keyword argument partial_conv'')
   \<and> create_linear_flow config g
     = Inl (TypeError ''__init__() got an unexpected keyword argument partial_conv'')
   \<and> create_partial_conv_flow config g
     = Inl (TypeError ''__init__() got an unexpected keyword argument partial_conv'')"
  by (simp add: create_simple_flow_def create_vardeq_flow_def create_long_flow_def
      create_linear_flow_def create_partial_conv_flow_def bindC_def get_flow_layers_raises)


end
